theory Spec2Isabelle
  imports Main
begin

section \<open>Risk model and risk engine\<close>

text \<open>
  Instants are the millisecond readings of \<^verbatim>\<open>Date.now()\<close> and \<^verbatim>\<open>Date.getTime()\<close>. Every
  function that reads the clock takes the reading as the parameter \<open>now\<close>.
\<close>

type_synonym ms = int

text \<open>
  \<^verbatim>\<open>risk.model.ts\<close>: \<^verbatim>\<open>RiskLevel\<close> is a union of four string literals, \<^verbatim>\<open>RiskSignal\<close> a
  signal type, a numeric severity and an evidence string. The severities the repository
  produces are the integer literals 3, 6 and 7, so \<^verbatim>\<open>number\<close> is read as \<open>int\<close>
  (sums of such values are exact in a double far beyond the cap of 100).
\<close>

datatype RiskLevel = LOW | MEDIUM | HIGH | CRITICAL

datatype SignalType =
    IP_ANOMALY | GEO_ANOMALY | DEVICE_MISMATCH | IMPOSSIBLE_TRAVEL
  | BEHAVIOR_ANOMALY | THREAT_INTEL | SESSION_REUSE

record RiskSignal =
  sg_type :: SignalType
  severity :: int
  evidence :: string

record SessionRiskProfile =
  p_sessionId :: string
  p_subjectId :: string
  riskScore :: int
  riskLevel :: RiskLevel
  signals :: "RiskSignal list"
  evaluatedAt :: int

text \<open>\<^verbatim>\<open>risk.engine.ts\<close>, \<^verbatim>\<open>classify\<close>: the first matching threshold wins.\<close>

definition classify :: "int \<Rightarrow> RiskLevel" where
  "classify score =
     (if score \<ge> 80 then CRITICAL
      else if score \<ge> 60 then HIGH
      else if score \<ge> 30 then MEDIUM
      else LOW)"

text \<open>
  \<^verbatim>\<open>RiskEngine.evaluate\<close>: \<^verbatim>\<open>signals.reduce((sum, s) => sum + s.severity * 5, 0)\<close>, then
  \<^verbatim>\<open>Math.min(score, 100)\<close>. The clock reading of \<^verbatim>\<open>new Date()\<close> is the parameter \<open>now\<close>.
\<close>

definition RiskEngine_evaluate ::
  "int \<Rightarrow> string \<Rightarrow> string \<Rightarrow> RiskSignal list \<Rightarrow> SessionRiskProfile" where
  "RiskEngine_evaluate now sessionId subjectId sigs =
     (let score = foldl (\<lambda>sum s. sum + severity s * 5) 0 sigs;
          normalized = min score 100
      in \<lparr> p_sessionId = sessionId, p_subjectId = subjectId,
           riskScore = normalized, riskLevel = classify normalized,
           signals = sigs, evaluatedAt = now \<rparr>)"


section \<open>Session record, audit trail and the key-value store\<close>

text \<open>
  \<^verbatim>\<open>session.service.ts\<close>, \<^verbatim>\<open>interface Session\<close>. Optional properties are options. The
  interface declares \<^verbatim>\<open>tenantId: string\<close>, but the object that \<^verbatim>\<open>create\<close> builds has no
  such property, so the field is an option here and \<open>None\<close> is the absent property
  (\<^verbatim>\<open>undefined\<close> when read). \<^verbatim>\<open>JSON.stringify\<close> followed by \<^verbatim>\<open>JSON.parse\<close> gives back a
  record of this shape unchanged, so the store holds the record itself.
\<close>

record Session =
  s_id :: string
  s_subjectId :: string
  s_deviceId :: "string option"
  s_tenantId :: "string option"
  s_createdAt :: ms
  s_expiresAt :: ms
  s_revokedAt :: "ms option"
  s_riskLevel :: RiskLevel
  s_mfaVerified :: bool
  s_lastEvaluatedAt :: ms

text \<open>
  The objects handed to \<^verbatim>\<open>audit.log\<close>. The \<^verbatim>\<open>metadata\<close> object has one of five shapes in
  the code modelled here. The audit service itself is outside the sources; a call
  appends its argument to a trail.
\<close>

datatype Metadata =
    MdSessionId string
  | MdRevokedCount nat
  | MdSubjectId string
  | MdReason string
  | MdRisk int "RiskSignal list"

record AuditEntry =
  action :: string
  actorId :: string
  targetId :: "string option"
  metadata :: Metadata

text \<open>\<^verbatim>\<open>entitlement.model.ts\<close>. Dates are their \<^verbatim>\<open>getTime()\<close> readings.\<close>

datatype EntitlementSubjectType = USER | SERVICE | THIRD_PARTY

datatype EntitlementStatus = ACTIVE | REVOKED | EXPIRED | SUSPENDED

record Entitlement =
  e_id :: string
  e_subjectType :: EntitlementSubjectType
  e_subjectId :: string
  e_resourceType :: string
  e_resourceId :: string
  e_scopes :: "string list"
  e_status :: EntitlementStatus
  e_validFrom :: ms
  e_validUntil :: "ms option"
  e_grantedBy :: string
  e_grantReason :: string
  e_createdAt :: ms
  e_updatedAt :: ms
  e_revokedAt :: "ms option"

text \<open>
  The state outside the process: the Redis keyspace, the audit trail and the entitlement
  table. Each Redis key holds a value and an optional expiry instant. The keyspace is
  split by value type (JSON strings under \<^verbatim>\<open>session:\<close>, sets under \<^verbatim>\<open>subject:sessions:\<close>,
  integer counters under \<^verbatim>\<open>rate:\<close>); the three prefixes differ, so no key is used at two
  types. Keys stay the full key strings. A set is the list \<^verbatim>\<open>SMEMBERS\<close> replies with.
\<close>

record World =
  kv_strings :: "string \<rightharpoonup> Session \<times> ms option"
  kv_sets :: "string \<rightharpoonup> string list \<times> ms option"
  kv_counters :: "string \<rightharpoonup> int \<times> ms option"
  auditTrail :: "AuditEntry list"
  entitlementRows :: "Entitlement list"

definition initWorld :: "Entitlement list \<Rightarrow> World" where
  "initWorld rows = \<lparr> kv_strings = Map.empty, kv_sets = Map.empty, kv_counters = Map.empty,
                      auditTrail = [], entitlementRows = rows \<rparr>"

text \<open>
  A key is visible up to and including its expiry instant (Redis drops a key once the
  clock is past it); a key without expiry stays.
\<close>

definition alive :: "ms \<Rightarrow> ('v \<times> ms option) option \<Rightarrow> 'v option" where
  "alive now ent =
     (case ent of
        None \<Rightarrow> None
      | Some (v, None) \<Rightarrow> Some v
      | Some (v, Some e) \<Rightarrow> if now \<le> e then Some v else None)"

text \<open>The expiry a visible key carries on through \<^verbatim>\<open>KEEPTTL\<close>, \<^verbatim>\<open>INCR\<close>, \<^verbatim>\<open>SADD\<close>, \<^verbatim>\<open>SREM\<close>.\<close>

definition ttl_of :: "ms \<Rightarrow> ('v \<times> ms option) option \<Rightarrow> ms option" where
  "ttl_of now ent =
     (case ent of
        Some (v, Some e) \<Rightarrow> if now \<le> e then Some e else None
      | _ \<Rightarrow> None)"

definition redis_get :: "World \<Rightarrow> ms \<Rightarrow> string \<Rightarrow> Session option" where
  "redis_get w now k = alive now (kv_strings w k)"

definition redis_set_ex :: "World \<Rightarrow> ms \<Rightarrow> string \<Rightarrow> Session \<Rightarrow> int \<Rightarrow> World" where
  "redis_set_ex w now k v secs =
     w\<lparr> kv_strings := (kv_strings w)(k \<mapsto> (v, Some (now + secs * 1000))) \<rparr>"

definition redis_set_keepttl :: "World \<Rightarrow> ms \<Rightarrow> string \<Rightarrow> Session \<Rightarrow> World" where
  "redis_set_keepttl w now k v =
     w\<lparr> kv_strings := (kv_strings w)(k \<mapsto> (v, ttl_of now (kv_strings w k))) \<rparr>"

definition redis_del :: "World \<Rightarrow> string list \<Rightarrow> World" where
  "redis_del w ks =
     w\<lparr> kv_strings := (\<lambda>k. if k \<in> set ks then None else kv_strings w k),
        kv_sets := (\<lambda>k. if k \<in> set ks then None else kv_sets w k),
        kv_counters := (\<lambda>k. if k \<in> set ks then None else kv_counters w k) \<rparr>"

definition redis_smembers :: "World \<Rightarrow> ms \<Rightarrow> string \<Rightarrow> string list" where
  "redis_smembers w now k = (case alive now (kv_sets w k) of None \<Rightarrow> [] | Some xs \<Rightarrow> xs)"

definition redis_sadd :: "World \<Rightarrow> ms \<Rightarrow> string \<Rightarrow> string \<Rightarrow> World" where
  "redis_sadd w now k x =
     w\<lparr> kv_sets := (kv_sets w)(k \<mapsto> (List.insert x (redis_smembers w now k),
                                      ttl_of now (kv_sets w k))) \<rparr>"

text \<open>Redis removes a set key when its last member is removed.\<close>

definition redis_srem :: "World \<Rightarrow> ms \<Rightarrow> string \<Rightarrow> string \<Rightarrow> World" where
  "redis_srem w now k x =
     (let xs = removeAll x (redis_smembers w now k)
      in if xs = [] then w\<lparr> kv_sets := (kv_sets w)(k := None) \<rparr>
         else w\<lparr> kv_sets := (kv_sets w)(k \<mapsto> (xs, ttl_of now (kv_sets w k))) \<rparr>)"

text \<open>\<^verbatim>\<open>EXPIRE\<close> acts on a visible key only.\<close>

definition redis_expire :: "World \<Rightarrow> ms \<Rightarrow> string \<Rightarrow> int \<Rightarrow> World" where
  "redis_expire w now k secs =
     w\<lparr> kv_strings := (case alive now (kv_strings w k) of
                         None \<Rightarrow> kv_strings w
                       | Some v \<Rightarrow> (kv_strings w)(k \<mapsto> (v, Some (now + secs * 1000)))),
        kv_sets := (case alive now (kv_sets w k) of
                      None \<Rightarrow> kv_sets w
                    | Some v \<Rightarrow> (kv_sets w)(k \<mapsto> (v, Some (now + secs * 1000)))),
        kv_counters := (case alive now (kv_counters w k) of
                          None \<Rightarrow> kv_counters w
                        | Some v \<Rightarrow> (kv_counters w)(k \<mapsto> (v, Some (now + secs * 1000)))) \<rparr>"


definition audit_log :: "World \<Rightarrow> AuditEntry \<Rightarrow> World" where
  "audit_log w e = w\<lparr> auditTrail := auditTrail w @ [e] \<rparr>"

section \<open>SessionService\<close>

definition SESSION_TTL_SECONDS :: int where
  "SESSION_TTL_SECONDS = 60 * 60 * 8"

definition session_key :: "string \<Rightarrow> string" where
  "session_key sid = ''session:'' @ sid"

definition index_key :: "string \<Rightarrow> string" where
  "index_key subjectId = ''subject:sessions:'' @ subjectId"


record CreateParams =
  cp_subjectId :: string
  cp_deviceId :: "string option"
  cp_mfaVerified :: bool

text \<open>
  \<^verbatim>\<open>SessionService.create\<close>. The result of \<^verbatim>\<open>randomUUID()\<close> is the parameter \<open>uuid\<close>. The
  function awaits its three Redis commands one after the other, so each has an instant
  of its own: \<open>now\<close> is the reading of \<^verbatim>\<open>Date.now()\<close>, and \<open>t_set\<close>, \<open>t_sadd\<close>, \<open>t_expire\<close> are
  the instants at which \<^verbatim>\<open>SET\<close>, \<^verbatim>\<open>SADD\<close> and \<^verbatim>\<open>EXPIRE\<close> run.
\<close>

definition SessionService_create ::
  "ms \<Rightarrow> ms \<Rightarrow> ms \<Rightarrow> ms \<Rightarrow> string \<Rightarrow> CreateParams \<Rightarrow> World \<Rightarrow> Session \<times> World" where
  "SessionService_create now t_set t_sadd t_expire uuid params w =
     (let sess = \<lparr> s_id = uuid,
                   s_subjectId = cp_subjectId params,
                   s_deviceId = cp_deviceId params,
                   s_tenantId = None,
                   s_createdAt = now,
                   s_expiresAt = now + SESSION_TTL_SECONDS * 1000,
                   s_revokedAt = None,
                   s_riskLevel = LOW,
                   s_mfaVerified = cp_mfaVerified params,
                   s_lastEvaluatedAt = now \<rparr>;
          w1 = redis_set_ex w t_set (session_key (s_id sess)) sess SESSION_TTL_SECONDS;
          w2 = redis_sadd w1 t_sadd (index_key (s_subjectId sess)) (s_id sess);
          w3 = redis_expire w2 t_expire (index_key (s_subjectId sess)) (SESSION_TTL_SECONDS + 60)
      in (sess, w3))"

definition SessionService_updateRisk ::
  "ms \<Rightarrow> string \<Rightarrow> RiskLevel \<Rightarrow> ms \<Rightarrow> World \<Rightarrow> World" where
  "SessionService_updateRisk now sessionId lvl lastEvaluatedAt w =
     (case redis_get w now (session_key sessionId) of
        None \<Rightarrow> w
      | Some raw \<Rightarrow>
          (let sess = raw\<lparr> s_riskLevel := lvl, s_lastEvaluatedAt := lastEvaluatedAt \<rparr>
           in redis_set_keepttl w now (session_key (s_id sess)) sess))"

definition SessionService_get :: "World \<Rightarrow> ms \<Rightarrow> string \<Rightarrow> Session option" where
  "SessionService_get w now sessionId = redis_get w now (session_key sessionId)"

definition SessionService_revoke :: "ms \<Rightarrow> string \<Rightarrow> World \<Rightarrow> World" where
  "SessionService_revoke now sessionId w =
     (case redis_get w now (session_key sessionId) of
        None \<Rightarrow> w
      | Some sess \<Rightarrow>
          (let w1 = redis_del w [session_key sessionId];
               w2 = redis_srem w1 now (index_key (s_subjectId sess)) sessionId
           in audit_log w2 \<lparr> action = ''SESSION_REVOKED'', actorId = s_subjectId sess,
                             targetId = None, metadata = MdSessionId sessionId \<rparr>))"

text \<open>
  \<^verbatim>\<open>SessionService.revokeAllForSubject\<close>. Both exits are a bare \<^verbatim>\<open>return\<close> or the end of the
  body: the promise resolves to \<^verbatim>\<open>undefined\<close>, so the model returns the new state only.
\<close>

definition SessionService_revokeAllForSubject :: "ms \<Rightarrow> string \<Rightarrow> World \<Rightarrow> World" where
  "SessionService_revokeAllForSubject now subjectId w =
     (let indexKey = index_key subjectId;
          sessionIds = redis_smembers w now indexKey
      in if length sessionIds = 0 then w
         else
           (let sessionKeys = map session_key sessionIds;
                w1 = redis_del w sessionKeys;
                w2 = redis_del w1 [indexKey]
            in audit_log w2 \<lparr> action = ''SESSIONS_REVOKED_SUBJECT'', actorId = subjectId,
                              targetId = None,
                              metadata = MdRevokedCount (length sessionIds) \<rparr>))"

text \<open>\<^verbatim>\<open>session.revocation.ts\<close>.\<close>

definition revokeSessionsForSubject :: "ms \<Rightarrow> string \<Rightarrow> World \<Rightarrow> World" where
  "revokeSessionsForSubject now subjectId w =
     audit_log (SessionService_revokeAllForSubject now subjectId w)
       \<lparr> action = ''SESSIONS_REVOKED_SUBJECT'', actorId = subjectId,
         targetId = None, metadata = MdSubjectId subjectId \<rparr>"



section \<open>RiskService and the request context\<close>


text \<open>The policy input that \<^verbatim>\<open>buildOpaInput\<close> assembles, one field per leaf of the object.\<close>

record OpaInput =
  tenant_id :: "string option"
  tenant_plan :: string
  tenant_throttled :: bool
  subject_id :: string
  subject_mfa_verified :: bool
  risk_riskLevel :: RiskLevel
  oi_resource :: string
  oi_action :: string

record Tenant =
  plan :: string
  isThrottled :: bool

text \<open>
  What the hooks read from and write to the request. \<open>session_lastIp\<close> is the value of the
  property read \<^verbatim>\<open>session.lastIp\<close> in \<^verbatim>\<open>collectRiskSignals\<close> (the \<^verbatim>\<open>Session\<close> interface has no
  such property; \<open>None\<close> is \<^verbatim>\<open>undefined\<close>). A missing header is \<open>None\<close>.
\<close>

record Request =
  ip :: string
  headers :: "string \<rightharpoonup> string"
  session :: Session
  session_lastIp :: "string option"
  tenant :: Tenant
  resource :: string
  rq_action :: string
  risk :: "SessionRiskProfile option"
  opaInput :: "OpaInput option"

text \<open>
  What a hook does to the request: it returns without writing a response, it writes a
  response (status and JSON body), it throws, or it never returns (it awaits a promise
  that never settles).
\<close>

datatype Outcome =
  Continue | Respond int "(string \<times> string) list" | Throw string | NeverReturns

text \<open>JavaScript truthiness of an optional string: \<^verbatim>\<open>undefined\<close> and \<^verbatim>\<open>""\<close> are falsy.\<close>

definition truthy_str :: "string option \<Rightarrow> bool" where
  "truthy_str v = (case v of None \<Rightarrow> False | Some x \<Rightarrow> x \<noteq> [])"



section \<open>Risk-adaptive throttling\<close>



text \<open>
  \<^verbatim>\<open>riskThrottle.middleware.ts\<close>. The function is untyped JavaScript: the value it reads
  from \<^verbatim>\<open>request.session.riskLevel\<close> is one of the four declared literals, or a value for
  which the table \<^verbatim>\<open>LIMITS\<close> has no property (\<^verbatim>\<open>undefined\<close> when the session carries no
  level), which is \<open>Undeclared\<close>. The table has three keys.
\<close>

datatype LevelRead = Declared RiskLevel | Undeclared






definition admitted :: "(ms \<times> LevelRead) list \<Rightarrow> Outcome list \<Rightarrow> (ms \<times> LevelRead) list" where
  "admitted hits outs = map fst (filter (\<lambda>(h, out). out = Continue) (zip hits outs))"


section \<open>Device binding\<close>

text \<open>
  \<^verbatim>\<open>deviceBinding.middleware.ts\<close>. The parameters are named \<^verbatim>\<open>request\<close> and \<^verbatim>\<open>reply\<close>, and the
  body reads the identifiers \<^verbatim>\<open>req\<close> and \<^verbatim>\<open>res\<close>, which the file does not declare: they
  resolve in the enclosing scope, and reading an unbound identifier throws a
  \<^verbatim>\<open>ReferenceError\<close>. The scope says what \<^verbatim>\<open>req\<close> is bound to and whether \<^verbatim>\<open>res\<close> is bound.
\<close>

record Scope =
  sc_req :: "Request option"
  sc_res :: bool

text \<open>
  The scope the function has in the sources: its file declares neither identifier, no
  other file does, and Node has no global of either name.
\<close>

definition shippedScope :: Scope where
  "shippedScope = \<lparr> sc_req = None, sc_res = False \<rparr>"

definition enforceDeviceBinding :: "Scope \<Rightarrow> Request \<Rightarrow> Outcome" where
  "enforceDeviceBinding scope request =
     (case sc_req scope of
        None \<Rightarrow> Throw ''ReferenceError: req is not defined''
      | Some req \<Rightarrow>
          (let sess = session req;
               deviceId = headers req ''x-device-id''
           in if \<not> truthy_str deviceId \<or> deviceId \<noteq> s_deviceId sess then
                (if sc_res scope then Respond 401 [(''message'', ''Device mismatch'')]
                 else Throw ''ReferenceError: res is not defined'')
              else Continue))"

section \<open>Policy input and policy clients\<close>

text \<open>\<^verbatim>\<open>buildOpaInput\<close> writes \<^verbatim>\<open>request.opaInput\<close>.\<close>

definition buildOpaInput :: "Request \<Rightarrow> Request" where
  "buildOpaInput request =
     request\<lparr> opaInput := Some
       \<lparr> tenant_id = s_tenantId (session request),
         tenant_plan = plan (tenant request),
         tenant_throttled = isThrottled (tenant request),
         subject_id = s_subjectId (session request),
         subject_mfa_verified = s_mfaVerified (session request),
         risk_riskLevel = s_riskLevel (session request),
         oi_resource = resource request,
         oi_action = rq_action request \<rparr> \<rparr>"

text \<open>
  What the policy engine does with a call: it never answers, or it answers with a status,
  a body text and the body as parsed: not JSON, or a JSON object with its \<^verbatim>\<open>result\<close> member
  (absent: \<open>None\<close>). \<^verbatim>\<open>result\<close> is a boolean or an object with an optional \<^verbatim>\<open>allow\<close> member,
  as the engine's documents are.
\<close>

datatype OpaResult = ResBool bool | ResObject "bool option"

datatype Body = NotJson | Json "OpaResult option"

datatype Remote = NoAnswer | Reply int string Body

text \<open>An awaited promise rejects, resolves, or never settles.\<close>

datatype 'a Awaited = Rejected string | Resolved 'a | Pending

text \<open>
  The two HTTP libraries are outside the repository; these are their documented
  contracts for the options the code passes. \<^verbatim>\<open>fetch\<close> (node-fetch) is called with a
  \<^verbatim>\<open>timeout\<close> (\<^verbatim>\<open>OPA_EVAL_TIMEOUT\<close>, 5000 ms unless configured): it resolves with the response whatever its status and rejects when the
  engine has not answered in time. \<^verbatim>\<open>axios.post\<close> is called with no configuration: the
  default timeout is none, so the promise stays pending while the engine does not answer;
  with the default \<^verbatim>\<open>validateStatus\<close> it resolves for a status from 200 to 299 and rejects
  otherwise; \<^verbatim>\<open>data\<close> is the parsed body, or the text when the body is not JSON.
\<close>

definition res_ok :: "int \<Rightarrow> bool" where
  "res_ok status = (200 \<le> status \<and> status \<le> 299)"

definition fetch :: "Remote \<Rightarrow> (int \<times> string \<times> Body) Awaited" where
  "fetch r = (case r of
                NoAnswer \<Rightarrow> Rejected ''FetchError: network timeout''
              | Reply status text body \<Rightarrow> Resolved (status, text, body))"

definition axios_post :: "Remote \<Rightarrow> Body Awaited" where
  "axios_post r = (case r of
                     NoAnswer \<Rightarrow> Pending
                   | Reply status text body \<Rightarrow>
                       if res_ok status then Resolved body
                       else Rejected ''AxiosError: Request failed with status code'')"

datatype Details = DText string | DStatus int string | DJson "OpaResult option"

record PolicyResult =
  allow :: bool
  details :: Details

definition truthy_result :: "OpaResult option \<Rightarrow> bool" where
  "truthy_result r = (case r of None \<Rightarrow> False | Some (ResBool b) \<Rightarrow> b | Some (ResObject a) \<Rightarrow> True)"

text \<open>
  \<^verbatim>\<open>opaWasm.runtime.ts\<close>, \<^verbatim>\<open>evaluatePolicyHttp\<close>. \<open>OPA_URL\<close> is the environment setting, the
  engine maps the input sent to what comes back. Nothing is caught: a rejection of
  \<^verbatim>\<open>fetch\<close>, or of \<^verbatim>\<open>res.json()\<close> on a body that is not JSON, is the function's own.
\<close>

definition evaluatePolicyHttp ::
  "string \<Rightarrow> ('i \<Rightarrow> Remote) \<Rightarrow> 'i \<Rightarrow> PolicyResult Awaited" where
  "evaluatePolicyHttp OPA_URL engine input =
     (if OPA_URL = [] then Resolved \<lparr> allow = False, details = DText ''OPA_URL not configured'' \<rparr>
      else case fetch (engine input) of
             Rejected err \<Rightarrow> Rejected err
           | Pending \<Rightarrow> Pending
           | Resolved (status, text, body) \<Rightarrow>
               if \<not> res_ok status then
                 Resolved \<lparr> allow = False, details = DStatus status text \<rparr>
               else
                 (case body of
                    NotJson \<Rightarrow> Rejected ''SyntaxError: invalid json response body''
                  | Json res \<Rightarrow> Resolved \<lparr> allow = truthy_result res, details = DJson res \<rparr>))"

text \<open>
  \<^verbatim>\<open>opaClient.decide\<close> returns \<^verbatim>\<open>res.data.result\<close>, which is \<^verbatim>\<open>undefined\<close> when \<^verbatim>\<open>data\<close> is a
  text.
\<close>

definition opaClient_decide :: "('i \<Rightarrow> Remote) \<Rightarrow> 'i \<Rightarrow> (OpaResult option) Awaited" where
  "opaClient_decide engine input =
     (case axios_post (engine input) of
        Rejected err \<Rightarrow> Rejected err
      | Pending \<Rightarrow> Pending
      | Resolved data \<Rightarrow> Resolved (case data of NotJson \<Rightarrow> None | Json res \<Rightarrow> res))"

text \<open>
  \<^verbatim>\<open>opaAuthorize.ts\<close>. The file imports nothing and declares no \<^verbatim>\<open>opaClient\<close>, so the
  identifier resolves in the enclosing scope: \<open>bound\<close> says whether it is bound there (to
  the client above); reading it unbound throws a \<^verbatim>\<open>ReferenceError\<close> before any request
  is sent. \<^verbatim>\<open>!decision.allow\<close> throws a \<^verbatim>\<open>TypeError\<close> when \<^verbatim>\<open>decision\<close> is \<^verbatim>\<open>undefined\<close>, and
  reads \<^verbatim>\<open>undefined\<close> from a boolean. The hook awaits the client without a catch.
\<close>

definition opaAuthorize :: "bool \<Rightarrow> (OpaInput option \<Rightarrow> Remote) \<Rightarrow> Request \<Rightarrow> Outcome" where
  "opaAuthorize bound engine request =
     (if \<not> bound then Throw ''ReferenceError: opaClient is not defined''
      else case opaClient_decide engine (opaInput request) of
             Rejected err \<Rightarrow> Throw err
           | Pending \<Rightarrow> NeverReturns
           | Resolved decision \<Rightarrow>
               (case decision of
                  None \<Rightarrow> Throw ''TypeError: cannot read properties of undefined''
                | Some (ResBool b) \<Rightarrow> Respond 403 [(''message'', ''Access denied'')]
                | Some (ResObject a) \<Rightarrow>
                    if a = Some True then Continue
                    else Respond 403 [(''message'', ''Access denied'')]))"

section \<open>EntitlementService\<close>

text \<open>\<^verbatim>\<open>isEntitlementActive\<close>: a \<^verbatim>\<open>Date\<close> is truthy, a missing \<^verbatim>\<open>validUntil\<close> is not.\<close>

definition isEntitlementActive :: "ms \<Rightarrow> Entitlement \<Rightarrow> bool" where
  "isEntitlementActive now entitlement =
     (if e_status entitlement \<noteq> ACTIVE then False
      else if e_validFrom entitlement > now then False
      else if (case e_validUntil entitlement of None \<Rightarrow> False | Some u \<Rightarrow> u < now) then False
      else True)"

text \<open>
  \<^verbatim>\<open>EntitlementService_getActiveForSubject\<close>: \<^verbatim>\<open>findMany\<close> with the \<^verbatim>\<open>where\<close> clause, then the filter. The scopes
  column round-trips through JSON and is kept as the list. The filter reads the clock
  once per row; all readings are taken at the one instant \<open>now\<close>.
\<close>

definition EntitlementService_getActiveForSubject :: "ms \<Rightarrow> string \<Rightarrow> World \<Rightarrow> Entitlement list" where
  "EntitlementService_getActiveForSubject now subjectId w =
     (let records = filter (\<lambda>r. e_subjectId r = subjectId \<and> e_status r = ACTIVE)
                           (entitlementRows w)
      in filter (isEntitlementActive now) records)"

text \<open>
  \<^verbatim>\<open>prisma.entitlement.update\<close> with \<^verbatim>\<open>where: { id }\<close>: \<^verbatim>\<open>id\<close> is the primary key; the call
  rejects when no row has it, and returns the updated row otherwise.
\<close>

definition prisma_entitlement_update ::
  "string \<Rightarrow> (Entitlement \<Rightarrow> Entitlement) \<Rightarrow> Entitlement list
     \<Rightarrow> (Entitlement \<times> Entitlement list) option" where
  "prisma_entitlement_update eid f rows =
     (case find (\<lambda>r. e_id r = eid) rows of
        None \<Rightarrow> None
      | Some r \<Rightarrow> Some (f r, map (\<lambda>x. if e_id x = eid then f x else x) rows))"

definition EntitlementService_revoke ::
  "ms \<Rightarrow> string \<Rightarrow> string \<Rightarrow> string \<Rightarrow> World \<Rightarrow> (string + Entitlement) \<times> World" where
  "EntitlementService_revoke now entitlementId revokedBy reason w =
     (case prisma_entitlement_update entitlementId
             (\<lambda>r. r\<lparr> e_status := REVOKED, e_revokedAt := Some now, e_updatedAt := now \<rparr>)
             (entitlementRows w) of
        None \<Rightarrow> (Inl ''PrismaClientKnownRequestError: record to update not found'', w)
      | Some (entitlement, rows') \<Rightarrow>
          (let w1 = w\<lparr> entitlementRows := rows' \<rparr>;
               w2 = revokeSessionsForSubject now (e_subjectId entitlement) w1;
               w3 = audit_log w2 \<lparr> action = ''ENTITLEMENT_REVOKED'', actorId = revokedBy,
                                   targetId = Some entitlementId,
                                   metadata = MdReason reason \<rparr>
           in (Inr entitlement, w3)))"

text \<open>
  Histories of the session store: time passes, and \<^verbatim>\<open>SessionService\<close> is called. Every
  writer of session keys in the sources goes through these four functions. \<open>Create\<close>
  carries the delays before its three Redis commands.
\<close>

datatype StoreOp =
    Tick nat
  | Create string CreateParams nat nat nat
  | UpdateRisk string RiskLevel ms
  | Revoke string
  | RevokeAll string

fun step :: "ms \<times> World \<Rightarrow> StoreOp \<Rightarrow> ms \<times> World" where
  "step (t, w) (Tick d) = (t + int d, w)"
| "step (t, w) (Create uuid params d0 d1 d2) =
     (t + int d0 + int d1 + int d2,
      snd (SessionService_create t (t + int d0) (t + int d0 + int d1)
             (t + int d0 + int d1 + int d2) uuid params w))"
| "step (t, w) (UpdateRisk sid lvl at) = (t, SessionService_updateRisk t sid lvl at w)"
| "step (t, w) (Revoke sid) = (t, SessionService_revoke t sid w)"
| "step (t, w) (RevokeAll subjectId) = (t, SessionService_revokeAllForSubject t subjectId w)"

definition run :: "StoreOp list \<Rightarrow> ms \<times> World \<Rightarrow> ms \<times> World" where
  "run ops start = foldl step start ops"

section \<open>The hash-chained audit log\<close>

text \<open>
  \<^verbatim>\<open>KeyRotationAuditService.ts\<close>. \<^verbatim>\<open>AuditEvent\<close> is the event body with an \<^verbatim>\<open>eventId\<close>;
  \<^verbatim>\<open>Omit<AuditEvent, 'eventId'>\<close> is the body.
\<close>

datatype KeyAction = KEY_CREATED | KEY_ROTATED | KEY_REVOKED | KEY_USED | DECRYPT | ENCRYPT

record EventBody =
  timestamp :: int
  actor :: string
  ev_action :: KeyAction
  keyId :: string
  keyVersion :: int
  contextHash :: string

record AuditEvent = EventBody +
  eventId :: string

definition withId :: "EventBody \<Rightarrow> string \<Rightarrow> AuditEvent" where
  "withId e h = \<lparr> timestamp = timestamp e, actor = actor e, ev_action = ev_action e,
                 keyId = keyId e, keyVersion = keyVersion e, contextHash = contextHash e,
                 eventId = h \<rparr>"

definition withoutId :: "AuditEvent \<Rightarrow> EventBody" where
  "withoutId ev = \<lparr> timestamp = timestamp ev, actor = actor ev, ev_action = ev_action ev,
                    keyId = keyId ev, keyVersion = keyVersion ev,
                    contextHash = contextHash ev \<rparr>"

record ImmutableAuditLog =
  events :: "AuditEvent list"
  lastHash :: string

definition newLog :: ImmutableAuditLog where
  "newLog = \<lparr> events = [], lastHash = ''GENESIS'' \<rparr>"

text \<open>
  The two library functions are parameters: \<open>sha\<close> is
  \<^verbatim>\<open>createHash('sha256').update(s).digest('hex')\<close>, and \<open>js e prev\<close> is \<^verbatim>\<open>JSON.stringify\<close> of
  the body's properties followed by \<^verbatim>\<open>previousHash: prev\<close>. In \<^verbatim>\<open>verify\<close> the object also has
  \<^verbatim>\<open>eventId: undefined\<close>, which \<^verbatim>\<open>JSON.stringify\<close> leaves out, so the same \<open>js\<close> serves.
\<close>

definition ImmutableAuditLog_append ::
  "(string \<Rightarrow> string) \<Rightarrow> (EventBody \<Rightarrow> string \<Rightarrow> string) \<Rightarrow> EventBody \<Rightarrow> ImmutableAuditLog
     \<Rightarrow> AuditEvent \<times> ImmutableAuditLog" where
  "ImmutableAuditLog_append sha js event log =
     (let serialized = js event (lastHash log);
          hash = sha serialized;
          finalEvent = withId event hash
      in (finalEvent, log\<lparr> events := events log @ [finalEvent], lastHash := hash \<rparr>))"

fun verify_from ::
  "(string \<Rightarrow> string) \<Rightarrow> (EventBody \<Rightarrow> string \<Rightarrow> string) \<Rightarrow> string \<Rightarrow> AuditEvent list \<Rightarrow> bool" where
  "verify_from sha js prev [] = True"
| "verify_from sha js prev (event # rest) =
     (let reconstructed = sha (js (withoutId event) prev)
      in if reconstructed \<noteq> eventId event then False
         else verify_from sha js (eventId event) rest)"

definition ImmutableAuditLog_verify ::
  "(string \<Rightarrow> string) \<Rightarrow> (EventBody \<Rightarrow> string \<Rightarrow> string) \<Rightarrow> ImmutableAuditLog \<Rightarrow> bool" where
  "ImmutableAuditLog_verify sha js log = verify_from sha js ''GENESIS'' (events log)"

text \<open>The log after appending a list of events in order.\<close>

definition appendAll ::
  "(string \<Rightarrow> string) \<Rightarrow> (EventBody \<Rightarrow> string \<Rightarrow> string) \<Rightarrow> EventBody list \<Rightarrow> ImmutableAuditLog
     \<Rightarrow> ImmutableAuditLog" where
  "appendAll sha js bodies log = foldl (\<lambda>l e. snd (ImmutableAuditLog_append sha js e l)) log bodies"

section \<open>Example data and store predicates\<close>

text \<open>
  Concrete requests, stores and runs of requests on which the properties below are
  evaluated, and a predicate that one of the proofs is stated with.
\<close>

definition ent0 :: Entitlement where
  "ent0 = \<lparr> e_id = ''e1'', e_subjectType = USER, e_subjectId = ''u1'',
            e_resourceType = ''doc'', e_resourceId = ''42'', e_scopes = [''read:*''],
            e_status = ACTIVE, e_validFrom = 0, e_validUntil = Some 1000,
            e_grantedBy = ''admin'', e_grantReason = ''test'',
            e_createdAt = 0, e_updatedAt = 0, e_revokedAt = None \<rparr>"

definition sess0 :: Session where
  "sess0 = \<lparr> s_id = ''s1'', s_subjectId = ''u1'', s_deviceId = Some ''d1'', s_tenantId = None,
             s_createdAt = 0, s_expiresAt = 28800000, s_revokedAt = None, s_riskLevel = LOW,
             s_mfaVerified = True, s_lastEvaluatedAt = 0 \<rparr>"

definition req0 :: Request where
  "req0 = \<lparr> ip = ''10.0.0.1'', headers = [''x-device-id'' \<mapsto> ''d1''], session = sess0,
            session_lastIp = None, tenant = \<lparr> plan = ''free'', isThrottled = False \<rparr>,
            resource = ''/api/x'', rq_action = ''GET'', risk = None, opaInput = None \<rparr>"



definition twoSessions :: World where
  "twoSessions =
     snd (SessionService_create 10 10 10 10 ''s3''
            \<lparr> cp_subjectId = ''u2'', cp_deviceId = None, cp_mfaVerified = False \<rparr>
       (snd (SessionService_create 0 0 0 0 ''s2''
            \<lparr> cp_subjectId = ''u2'', cp_deviceId = Some ''d1'', cp_mfaVerified = True \<rparr>
            (initWorld []))))"

text \<open>
  No session record in the store has a tenant id.
\<close>

definition tenantless :: "World \<Rightarrow> bool" where
  "tenantless w = (\<forall>k s e. kv_strings w k = Some (s, e) \<longrightarrow> s_tenantId s = None)"

definition entU2 :: Entitlement where
  "entU2 = \<lparr> e_id = ''e9'', e_subjectType = USER, e_subjectId = ''u2'',
             e_resourceType = ''payments'', e_resourceId = ''7'', e_scopes = [''write:payments''],
             e_status = ACTIVE, e_validFrom = 0, e_validUntil = None,
             e_grantedBy = ''admin'', e_grantReason = ''onboarding'',
             e_createdAt = 0, e_updatedAt = 0, e_revokedAt = None \<rparr>"

definition historyS6 :: "StoreOp list" where
  "historyS6 =
     [Create ''s2'' \<lparr> cp_subjectId = ''u2'', cp_deviceId = Some ''d1'', cp_mfaVerified = True \<rparr> 0 0 0,
      Tick 10,
      Create ''s3'' \<lparr> cp_subjectId = ''u2'', cp_deviceId = None, cp_mfaVerified = False \<rparr> 0 0 0,
      Tick 10]"

definition entU1 :: Entitlement where
  "entU1 = \<lparr> e_id = ''e1'', e_subjectType = USER, e_subjectId = ''u1'',
             e_resourceType = ''payments'', e_resourceId = ''7'', e_scopes = [''write:payments''],
             e_status = ACTIVE, e_validFrom = 0, e_validUntil = None,
             e_grantedBy = ''admin'', e_grantReason = ''onboarding'',
             e_createdAt = 0, e_updatedAt = 0, e_revokedAt = None \<rparr>"

text \<open>
  A store in which \<^verbatim>\<open>create\<close> leaves a session outside its subject's index. Instants are
  milliseconds. The first \<^verbatim>\<open>create\<close> for \<^verbatim>\<open>u1\<close> runs at 0: its index expires at 28 860 000.
  The second reads the clock and runs \<^verbatim>\<open>SET\<close> and \<^verbatim>\<open>SADD\<close> at 28 860 000, when the index is
  still visible and keeps its expiry, and \<^verbatim>\<open>EXPIRE\<close> one millisecond later, when the index
  has expired and \<^verbatim>\<open>EXPIRE\<close> finds no key.
\<close>

definition lateIndexWorld :: World where
  "lateIndexWorld =
     snd (SessionService_create 28860000 28860000 28860000 28860001 ''s9''
            \<lparr> cp_subjectId = ''u1'', cp_deviceId = Some ''d1'', cp_mfaVerified = True \<rparr>
       (snd (SessionService_create 0 0 0 0 ''s1''
            \<lparr> cp_subjectId = ''u1'', cp_deviceId = Some ''d1'', cp_mfaVerified = True \<rparr>
            (initWorld [entU1]))))"

definition worldS6 :: World where
  "worldS6 = snd (run historyS6 (0, initWorld [entU2]))"



definition body1 :: EventBody where
  "body1 = \<lparr> timestamp = 5, actor = ''alice'', ev_action = KEY_CREATED, keyId = ''k1'',
             keyVersion = 1, contextHash = ''c0'' \<rparr>"

definition body2 :: EventBody where
  "body2 = \<lparr> timestamp = 7, actor = ''alice'', ev_action = KEY_ROTATED, keyId = ''k1'',
             keyVersion = 2, contextHash = ''c1'' \<rparr>"

section \<open>The risk engine\<close>

lemma foldl_severity_sum:
  "foldl (\<lambda>sum s. sum + severity s * 5) a sigs = a + (\<Sum>s\<leftarrow>sigs. severity s * 5)"
  by (induction sigs arbitrary: a) simp_all

lemma evaluate_riskScore:
  "riskScore (RiskEngine_evaluate now sid subj sigs) = min 100 (\<Sum>s\<leftarrow>sigs. severity s * 5)"
  by (simp add: RiskEngine_evaluate_def Let_def foldl_severity_sum min.commute)

lemma evaluate_riskLevel:
  "riskLevel (RiskEngine_evaluate now sid subj sigs) =
     classify (riskScore (RiskEngine_evaluate now sid subj sigs))"
  by (simp add: RiskEngine_evaluate_def Let_def)

lemma classify_LOW: "(classify x = LOW) = (x < 30)"
  by (simp add: classify_def)
lemma classify_MEDIUM: "(classify x = MEDIUM) = (30 \<le> x \<and> x < 60)"
  by (simp add: classify_def)
lemma classify_HIGH: "(classify x = HIGH) = (60 \<le> x \<and> x < 80)"
  by (simp add: classify_def)
lemma classify_CRITICAL: "(classify x = CRITICAL) = (80 \<le> x)"
  by (simp add: classify_def)

text \<open>
  Claim C3. For every list of signals the engine returns
  \<open>riskScore = min 100 (\<Sum> severity\<^sub>i * 5)\<close>, and the level is read off the score by the
  thresholds: below 30 is LOW, from 30 up to (not including) 60 is MEDIUM, from 60 up to
  (not including) 80 is HIGH, 80 and above is CRITICAL, each lower bound inclusive. Score
  and level depend on the signals alone (the clock only stamps \<open>evaluatedAt\<close>).
  Severities 3 and 7 give score 50 and MEDIUM; no signals give score 0 and LOW.
\<close>

theorem C3_evaluate_score_and_level:
  "riskScore (RiskEngine_evaluate now sid subj sigs) = min 100 (\<Sum>s\<leftarrow>sigs. severity s * 5)
   \<and> ((riskLevel (RiskEngine_evaluate now sid subj sigs) = LOW)
        = (riskScore (RiskEngine_evaluate now sid subj sigs) < 30))
   \<and> ((riskLevel (RiskEngine_evaluate now sid subj sigs) = MEDIUM)
        = (30 \<le> riskScore (RiskEngine_evaluate now sid subj sigs)
           \<and> riskScore (RiskEngine_evaluate now sid subj sigs) < 60))
   \<and> ((riskLevel (RiskEngine_evaluate now sid subj sigs) = HIGH)
        = (60 \<le> riskScore (RiskEngine_evaluate now sid subj sigs)
           \<and> riskScore (RiskEngine_evaluate now sid subj sigs) < 80))
   \<and> ((riskLevel (RiskEngine_evaluate now sid subj sigs) = CRITICAL)
        = (80 \<le> riskScore (RiskEngine_evaluate now sid subj sigs)))
   \<and> riskScore (RiskEngine_evaluate now' sid' subj' sigs)
        = riskScore (RiskEngine_evaluate now sid subj sigs)
   \<and> riskLevel (RiskEngine_evaluate now' sid' subj' sigs)
        = riskLevel (RiskEngine_evaluate now sid subj sigs)
   \<and> riskScore (RiskEngine_evaluate now sid subj
         [\<lparr>sg_type = IP_ANOMALY, severity = 3, evidence = ev1\<rparr>,
          \<lparr>sg_type = DEVICE_MISMATCH, severity = 7, evidence = ev2\<rparr>]) = 50
   \<and> riskLevel (RiskEngine_evaluate now sid subj
         [\<lparr>sg_type = IP_ANOMALY, severity = 3, evidence = ev1\<rparr>,
          \<lparr>sg_type = DEVICE_MISMATCH, severity = 7, evidence = ev2\<rparr>]) = MEDIUM
   \<and> riskScore (RiskEngine_evaluate now sid subj []) = 0
   \<and> riskLevel (RiskEngine_evaluate now sid subj []) = LOW"
proof -
  have ex: "riskScore (RiskEngine_evaluate now sid subj
         [\<lparr>sg_type = IP_ANOMALY, severity = 3, evidence = ev1\<rparr>,
          \<lparr>sg_type = DEVICE_MISMATCH, severity = 7, evidence = ev2\<rparr>]) = 50"
    by (simp add: evaluate_riskScore)
  have ex0: "riskScore (RiskEngine_evaluate now sid subj []) = 0"
    by (simp add: evaluate_riskScore)
  show ?thesis
    unfolding evaluate_riskLevel classify_LOW classify_MEDIUM classify_HIGH classify_CRITICAL
    unfolding ex ex0
    by (simp add: evaluate_riskScore classify_def)
qed

theorem C3_witness:
  "riskScore (RiskEngine_evaluate 0 ''s1'' ''u1''
      [\<lparr>sg_type = THREAT_INTEL, severity = 10, evidence = ''feed''\<rparr>,
       \<lparr>sg_type = SESSION_REUSE, severity = 7, evidence = ''reuse''\<rparr>]) = 85
   \<and> riskLevel (RiskEngine_evaluate 0 ''s1'' ''u1''
      [\<lparr>sg_type = THREAT_INTEL, severity = 10, evidence = ''feed''\<rparr>,
       \<lparr>sg_type = SESSION_REUSE, severity = 7, evidence = ''reuse''\<rparr>]) = CRITICAL"
  using C3_evaluate_score_and_level [of 0 "''s1''" "''u1''"
      "[\<lparr>sg_type = THREAT_INTEL, severity = 10, evidence = ''feed''\<rparr>,
       \<lparr>sg_type = SESSION_REUSE, severity = 7, evidence = ''reuse''\<rparr>]"]
  by simp

section \<open>Active entitlements\<close>

lemma isEntitlementActive_iff:
  "isEntitlementActive now e =
     (e_status e = ACTIVE \<and> e_validFrom e \<le> now
      \<and> (case e_validUntil e of None \<Rightarrow> True | Some u \<Rightarrow> now \<le> u))"
  by (auto simp: isEntitlementActive_def split: option.splits)

text \<open>
  An ACTIVE entitlement whose \<open>validUntil\<close> is the current instant is returned, so the
  window is not half-open.
\<close>

theorem C8_counterexample:
  "EntitlementService_getActiveForSubject 1000 ''u1'' (initWorld [ent0]) = [ent0]
   \<and> e_validUntil ent0 = Some 1000"
  by (simp add: EntitlementService_getActiveForSubject_def initWorld_def ent0_def isEntitlementActive_def)

text \<open>
  Claim C8, as the code has it. \<^verbatim>\<open>getActiveForSubject\<close> returns, in table order, exactly the
  subject's rows whose status is ACTIVE and whose window contains the current instant as
  the closed interval from \<open>validFrom\<close> to \<open>validUntil\<close> (unbounded when \<open>validUntil\<close> is
  missing): a row whose \<open>validUntil\<close> equals the current instant is returned, and so is a
  row whose \<open>validFrom\<close> equals it. The claim's half-open interval fails at
  \<open>validUntil = now\<close>.
\<close>

theorem C8_active_closed_window:
  "EntitlementService_getActiveForSubject now subj w =
     filter (\<lambda>r. e_subjectId r = subj \<and> e_status r = ACTIVE \<and> e_validFrom r \<le> now
                \<and> (case e_validUntil r of None \<Rightarrow> True | Some u \<Rightarrow> now \<le> u))
            (entitlementRows w)
   \<and> (r \<in> set (entitlementRows w) \<and> e_subjectId r = subj \<and> e_status r = ACTIVE
        \<and> e_validFrom r \<le> now \<and> e_validUntil r = Some now
      \<longrightarrow> r \<in> set (EntitlementService_getActiveForSubject now subj w))
   \<and> (r \<in> set (entitlementRows w) \<and> e_subjectId r = subj \<and> e_status r = ACTIVE
        \<and> e_validFrom r = now \<and> (\<forall>u. e_validUntil r = Some u \<longrightarrow> now \<le> u)
      \<longrightarrow> r \<in> set (EntitlementService_getActiveForSubject now subj w))"
proof -
  have eq: "EntitlementService_getActiveForSubject now subj w =
     filter (\<lambda>r. e_subjectId r = subj \<and> e_status r = ACTIVE \<and> e_validFrom r \<le> now
                \<and> (case e_validUntil r of None \<Rightarrow> True | Some u \<Rightarrow> now \<le> u))
            (entitlementRows w)"
    unfolding EntitlementService_getActiveForSubject_def Let_def filter_filter isEntitlementActive_iff
    by (rule filter_cong) auto
  show ?thesis
    unfolding eq by (auto split: option.splits)
qed

theorem C8_witness:
  "EntitlementService_getActiveForSubject 1000 ''u1'' (initWorld [ent0, ent0\<lparr>e_id := ''e2'', e_validUntil := Some 999\<rparr>]) = [ent0]"
  using C8_active_closed_window [of 1000 "''u1''" "initWorld [ent0, ent0\<lparr>e_id := ''e2'', e_validUntil := Some 999\<rparr>]" ent0]
  by (simp add: initWorld_def ent0_def)

section \<open>Device binding\<close>

text \<open>
  Claim C9, against the code. The function's parameters are \<^verbatim>\<open>request\<close> and \<^verbatim>\<open>reply\<close>, its
  body reads \<^verbatim>\<open>req\<close> and \<^verbatim>\<open>res\<close>, which nothing declares: on every request, matching device
  or not, the call throws \<^verbatim>\<open>ReferenceError\<close> at its first statement, so it neither responds
  401 nor passes the request through. And in no scope at all does the function answer
  with the body \<^verbatim>\<open>{"error":"Device mismatch"}\<close> of the claim: the member it would send is
  \<^verbatim>\<open>message\<close>.
\<close>

theorem C9_device_binding_throws:
  "enforceDeviceBinding shippedScope request = Throw ''ReferenceError: req is not defined''
   \<and> enforceDeviceBinding scope request \<noteq> Respond 401 [(''error'', ''Device mismatch'')]"
  by (simp add: enforceDeviceBinding_def shippedScope_def Let_def split: option.splits)

text \<open>
  The instances: a request from device \<^verbatim>\<open>d2\<close> on a session bound to \<^verbatim>\<open>d1\<close>, a request
  without the header, and a request from the bound device all end in the
  \<^verbatim>\<open>ReferenceError\<close>.
\<close>

theorem C9_witness:
  "enforceDeviceBinding shippedScope (req0\<lparr> headers := [''x-device-id'' \<mapsto> ''d2''] \<rparr>)
     = Throw ''ReferenceError: req is not defined''
   \<and> enforceDeviceBinding shippedScope (req0\<lparr> headers := [''x-device-id'' \<mapsto> ''d2''] \<rparr>)
     \<noteq> Respond 401 [(''error'', ''Device mismatch'')]
   \<and> enforceDeviceBinding shippedScope (req0\<lparr> headers := Map.empty \<rparr>)
     = Throw ''ReferenceError: req is not defined''
   \<and> enforceDeviceBinding shippedScope req0 = Throw ''ReferenceError: req is not defined''"
  using C9_device_binding_throws [of "req0\<lparr> headers := [''x-device-id'' \<mapsto> ''d2''] \<rparr>" shippedScope]
        C9_device_binding_throws [of "req0\<lparr> headers := Map.empty \<rparr>" shippedScope]
        C9_device_binding_throws [of req0 shippedScope]
  by simp

section \<open>Policy engine failures\<close>

text \<open>
  On an engine that does not answer, \<^verbatim>\<open>evaluatePolicyHttp\<close> rejects with the timeout error:
  it returns no decision, with \<open>allow = False\<close> or otherwise.
\<close>

theorem C7_counterexample:
  "evaluatePolicyHttp ''http://opa:8181/v1/data/authz/allow'' (\<lambda>i. NoAnswer) (opaInput req0)
     = Rejected ''FetchError: network timeout''
   \<and> (\<forall>d. evaluatePolicyHttp ''http://opa:8181/v1/data/authz/allow'' (\<lambda>i. NoAnswer) (opaInput req0)
          \<noteq> Resolved \<lparr> allow = False, details = d \<rparr>)"
  by (simp add: evaluatePolicyHttp_def fetch_def)

text \<open>
  Claim C7, as the code has it. \<^verbatim>\<open>evaluatePolicyHttp\<close> returns the decision \<open>allow = False\<close>
  when no engine address is configured and when the engine answers outside 200..299
  (with the status and body text as details); when the engine does not answer within the
  timeout, \<^verbatim>\<open>fetch\<close> rejects and the function rejects with it, and a reply inside 200..299
  whose body is not JSON rejects as well. \<^verbatim>\<open>opaClient.decide\<close> turns no failure into a
  decision: a status outside 200..299 rejects, and since no timeout is set a silent
  engine leaves the call pending. The hook \<^verbatim>\<open>opaAuthorize\<close> throws \<^verbatim>\<open>ReferenceError\<close> before
  any request where \<^verbatim>\<open>opaClient\<close> is unbound, as in its file; with the client bound it
  throws on a status outside 200..299, never returns on a silent engine, and answers 403
  only on a decision without \<^verbatim>\<open>allow: true\<close>.
\<close>

theorem C7_policy_failure:
  "evaluatePolicyHttp [] engine input
     = Resolved \<lparr> allow = False, details = DText ''OPA_URL not configured'' \<rparr>
   \<and> (OPA_URL \<noteq> [] \<longrightarrow>
        evaluatePolicyHttp OPA_URL engine input =
          (case engine input of
             NoAnswer \<Rightarrow> Rejected ''FetchError: network timeout''
           | Reply status text body \<Rightarrow>
               if \<not> (200 \<le> status \<and> status \<le> 299) then
                 Resolved \<lparr> allow = False, details = DStatus status text \<rparr>
               else
                 (case body of
                    NotJson \<Rightarrow> Rejected ''SyntaxError: invalid json response body''
                  | Json None \<Rightarrow> Resolved \<lparr> allow = False, details = DJson None \<rparr>
                  | Json (Some (ResBool b)) \<Rightarrow>
                      Resolved \<lparr> allow = b, details = DJson (Some (ResBool b)) \<rparr>
                  | Json (Some (ResObject a)) \<Rightarrow>
                      Resolved \<lparr> allow = True, details = DJson (Some (ResObject a)) \<rparr>)))
   \<and> opaClient_decide engine input =
         (case engine input of
            NoAnswer \<Rightarrow> Pending
          | Reply status text body \<Rightarrow>
              if \<not> (200 \<le> status \<and> status \<le> 299) then
                Rejected ''AxiosError: Request failed with status code''
              else Resolved (case body of NotJson \<Rightarrow> None | Json res \<Rightarrow> res))
   \<and> opaAuthorize False eng request = Throw ''ReferenceError: opaClient is not defined''
   \<and> opaAuthorize True eng request =
         (case eng (opaInput request) of
            NoAnswer \<Rightarrow> NeverReturns
          | Reply status text body \<Rightarrow>
              if \<not> (200 \<le> status \<and> status \<le> 299) then
                Throw ''AxiosError: Request failed with status code''
              else
                (case body of
                   NotJson \<Rightarrow> Throw ''TypeError: cannot read properties of undefined''
                 | Json None \<Rightarrow> Throw ''TypeError: cannot read properties of undefined''
                 | Json (Some (ResBool b)) \<Rightarrow> Respond 403 [(''message'', ''Access denied'')]
                 | Json (Some (ResObject a)) \<Rightarrow>
                     if a = Some True then Continue
                     else Respond 403 [(''message'', ''Access denied'')]))"
  by (simp add: evaluatePolicyHttp_def opaClient_decide_def opaAuthorize_def fetch_def
        axios_post_def res_ok_def truthy_result_def
        split: Remote.splits Body.splits option.splits OpaResult.splits)

theorem C7_witness:
  "evaluatePolicyHttp ''http://opa:8181/v1/data/authz/allow''
       (\<lambda>i. Reply 503 ''unavailable'' NotJson) (opaInput req0)
     = Resolved \<lparr> allow = False, details = DStatus 503 ''unavailable'' \<rparr>
   \<and> evaluatePolicyHttp ''http://opa:8181/v1/data/authz/allow'' (\<lambda>i. NoAnswer) (opaInput req0)
     = Rejected ''FetchError: network timeout''
   \<and> evaluatePolicyHttp ''http://opa:8181/v1/data/authz/allow''
       (\<lambda>i. Reply 200 ''<html>'' NotJson) (opaInput req0)
     = Rejected ''SyntaxError: invalid json response body''
   \<and> opaClient_decide (\<lambda>i. NoAnswer) (opaInput req0) = Pending
   \<and> opaClient_decide (\<lambda>i. Reply 503 ''unavailable'' NotJson) (opaInput req0)
     = Rejected ''AxiosError: Request failed with status code''
   \<and> opaAuthorize False (\<lambda>i. Reply 200 ''{}'' (Json (Some (ResObject (Some True))))) req0
     = Throw ''ReferenceError: opaClient is not defined''
   \<and> opaAuthorize True (\<lambda>i. NoAnswer) req0 = NeverReturns
   \<and> opaAuthorize True (\<lambda>i. Reply 503 ''unavailable'' NotJson) req0
     = Throw ''AxiosError: Request failed with status code''
   \<and> opaAuthorize True (\<lambda>i. Reply 200 ''{}'' (Json (Some (ResObject (Some True))))) req0
     = Continue"
  using C7_policy_failure [of "\<lambda>i. Reply 503 ''unavailable'' NotJson" "opaInput req0"
          "''http://opa:8181/v1/data/authz/allow''" "\<lambda>i. Reply 503 ''unavailable'' NotJson" req0]
        C7_policy_failure [of "\<lambda>i. NoAnswer" "opaInput req0"
          "''http://opa:8181/v1/data/authz/allow''" "\<lambda>i. NoAnswer" req0]
        C7_policy_failure [of "\<lambda>i. Reply 200 ''<html>'' NotJson" "opaInput req0"
          "''http://opa:8181/v1/data/authz/allow''"
          "\<lambda>i. Reply 200 ''{}'' (Json (Some (ResObject (Some True))))" req0]
  by simp

section \<open>Termination of a CRITICAL session\<close>

lemma kv_strings_audit_log [simp]: "kv_strings (audit_log w e) = kv_strings w"
  by (simp add: audit_log_def)
lemma kv_sets_audit_log [simp]: "kv_sets (audit_log w e) = kv_sets w"
  by (simp add: audit_log_def)
lemma kv_counters_audit_log [simp]: "kv_counters (audit_log w e) = kv_counters w"
  by (simp add: audit_log_def)
lemma auditTrail_audit_log [simp]: "auditTrail (audit_log w e) = auditTrail w @ [e]"
  by (simp add: audit_log_def)
lemma kv_strings_srem [simp]: "kv_strings (redis_srem w now k x) = kv_strings w"
  by (simp add: redis_srem_def Let_def)
lemma kv_strings_del: "kv_strings (redis_del w ks) k = (if k \<in> set ks then None else kv_strings w k)"
  by (simp add: redis_del_def)
lemma kv_sets_del: "kv_sets (redis_del w ks) k = (if k \<in> set ks then None else kv_sets w k)"
  by (simp add: redis_del_def)
lemma auditTrail_del [simp]: "auditTrail (redis_del w ks) = auditTrail w"
  by (simp add: redis_del_def)
lemma auditTrail_srem [simp]: "auditTrail (redis_srem w now k x) = auditTrail w"
  by (simp add: redis_srem_def Let_def)

lemma alive_None [simp]: "alive now None = None"
  by (simp add: alive_def)





lemma get_audit_log [simp]: "SessionService_get (audit_log w e) t sid = SessionService_get w t sid"
  by (simp add: SessionService_get_def redis_get_def)









section \<open>Revoking all sessions of a subject\<close>

lemma session_key_inj [simp]: "(session_key a = session_key b) = (a = b)"
  by (simp add: session_key_def)
lemma index_key_inj [simp]: "(index_key a = index_key b) = (a = b)"
  by (simp add: index_key_def)
lemma session_key_neq_index_key [simp]: "session_key a \<noteq> index_key b" "index_key b \<noteq> session_key a"
  by (simp_all add: session_key_def index_key_def)

lemma revokeAll_empty:
  "redis_smembers w now (index_key subj) = [] \<Longrightarrow>
     SessionService_revokeAllForSubject now subj w = w"
  by (simp add: SessionService_revokeAllForSubject_def)

lemma revokeAll_nonempty:
  "redis_smembers w now (index_key subj) \<noteq> [] \<Longrightarrow>
     SessionService_revokeAllForSubject now subj w =
       audit_log (redis_del (redis_del w (map session_key (redis_smembers w now (index_key subj))))
                    [index_key subj])
         \<lparr> action = ''SESSIONS_REVOKED_SUBJECT'', actorId = subj, targetId = None,
           metadata = MdRevokedCount (length (redis_smembers w now (index_key subj))) \<rparr>"
  by (simp add: SessionService_revokeAllForSubject_def Let_def)

lemma smembers_mono:
  "redis_smembers w now k = [] \<Longrightarrow> now \<le> t \<Longrightarrow> redis_smembers w t k = []"
  by (auto simp: redis_smembers_def alive_def split: option.splits if_splits)

lemma revokeAll_index_gone:
  assumes "now \<le> t"
  shows "redis_smembers (SessionService_revokeAllForSubject now subj w) t (index_key subj) = []"
proof (cases "redis_smembers w now (index_key subj) = []")
  case True
  with assms show ?thesis by (simp add: revokeAll_empty smembers_mono)
next
  case False
  then show ?thesis
    by (simp add: revokeAll_nonempty redis_smembers_def kv_sets_del)
qed

lemma revokeAll_sessions_gone:
  assumes "sid \<in> set (redis_smembers w now (index_key subj))"
  shows "SessionService_get (SessionService_revokeAllForSubject now subj w) t sid = None"
proof -
  from assms have ne: "redis_smembers w now (index_key subj) \<noteq> []" by auto
  show ?thesis
    using assms
    by (simp add: revokeAll_nonempty [OF ne] SessionService_get_def redis_get_def kv_strings_del)
qed

lemma revokeAll_other_keys:
  assumes "k \<notin> session_key ` set (redis_smembers w now (index_key subj))"
      and "k \<noteq> index_key subj"
  shows "kv_strings (SessionService_revokeAllForSubject now subj w) k = kv_strings w k"
proof (cases "redis_smembers w now (index_key subj) = []")
  case True
  then show ?thesis by (simp add: revokeAll_empty)
next
  case False
  with assms show ?thesis
    by (auto simp: revokeAll_nonempty kv_strings_del)
qed

lemma revokeAll_idem:
  assumes "now \<le> t"
  shows "SessionService_revokeAllForSubject t subj (SessionService_revokeAllForSubject now subj w)
           = SessionService_revokeAllForSubject now subj w"
  by (rule revokeAll_empty) (rule revokeAll_index_gone [OF assms])

text \<open>
  For a subject without sessions the function changes nothing and writes no audit entry.
\<close>

theorem C5_counterexample:
  "SessionService_revokeAllForSubject 0 ''u1'' (initWorld []) = initWorld []
   \<and> length (filter (\<lambda>e. action e = ''SESSIONS_REVOKED_SUBJECT'')
        (auditTrail (SessionService_revokeAllForSubject 0 ''u1'' (initWorld [])))) = 0"
  by (simp add: SessionService_revokeAllForSubject_def initWorld_def redis_smembers_def)

text \<open>
  Claim C5, as the code has it. \<^verbatim>\<open>revokeAllForSubject\<close> reads the subject's index set. When
  the set is empty it changes nothing and writes no audit entry. Otherwise it deletes the
  listed session keys and the index and appends exactly one \<^verbatim>\<open>SESSIONS_REVOKED_SUBJECT\<close>
  entry whose \<^verbatim>\<open>revokedCount\<close> is the number of listed ids; no other string key changes. It
  returns no value. After it, \<^verbatim>\<open>get\<close> of every listed id returns nothing, the index is empty,
  and a second call changes nothing.
\<close>

theorem C5_revokeAllForSubject:
  "(redis_smembers w now (index_key subj) = []
      \<longrightarrow> SessionService_revokeAllForSubject now subj w = w)
   \<and> (redis_smembers w now (index_key subj) \<noteq> []
      \<longrightarrow> auditTrail (SessionService_revokeAllForSubject now subj w)
            = auditTrail w @
              [\<lparr> action = ''SESSIONS_REVOKED_SUBJECT'', actorId = subj, targetId = None,
                 metadata = MdRevokedCount (length (redis_smembers w now (index_key subj))) \<rparr>])
   \<and> (\<forall>sid \<in> set (redis_smembers w now (index_key subj)). \<forall>t.
         SessionService_get (SessionService_revokeAllForSubject now subj w) t sid = None)
   \<and> (\<forall>k. k \<notin> session_key ` set (redis_smembers w now (index_key subj))
          \<and> k \<noteq> index_key subj
         \<longrightarrow> kv_strings (SessionService_revokeAllForSubject now subj w) k = kv_strings w k)
   \<and> (\<forall>t. now \<le> t \<longrightarrow>
         redis_smembers (SessionService_revokeAllForSubject now subj w) t (index_key subj) = []
         \<and> SessionService_revokeAllForSubject t subj (SessionService_revokeAllForSubject now subj w)
             = SessionService_revokeAllForSubject now subj w)"
proof (intro conjI allI impI ballI)
  assume "redis_smembers w now (index_key subj) = []"
  then show "SessionService_revokeAllForSubject now subj w = w" by (rule revokeAll_empty)
next
  assume "redis_smembers w now (index_key subj) \<noteq> []"
  then show "auditTrail (SessionService_revokeAllForSubject now subj w)
            = auditTrail w @
              [\<lparr> action = ''SESSIONS_REVOKED_SUBJECT'', actorId = subj, targetId = None,
                 metadata = MdRevokedCount (length (redis_smembers w now (index_key subj))) \<rparr>]"
    by (simp add: revokeAll_nonempty)
next
  fix sid t assume "sid \<in> set (redis_smembers w now (index_key subj))"
  then show "SessionService_get (SessionService_revokeAllForSubject now subj w) t sid = None"
    by (rule revokeAll_sessions_gone)
next
  fix k assume "k \<notin> session_key ` set (redis_smembers w now (index_key subj))
          \<and> k \<noteq> index_key subj"
  then show "kv_strings (SessionService_revokeAllForSubject now subj w) k = kv_strings w k"
    by (simp add: revokeAll_other_keys)
next
  fix t :: ms assume "now \<le> t"
  then show "redis_smembers (SessionService_revokeAllForSubject now subj w) t (index_key subj) = []"
    by (rule revokeAll_index_gone)
next
  fix t :: ms assume "now \<le> t"
  then show "SessionService_revokeAllForSubject t subj (SessionService_revokeAllForSubject now subj w)
             = SessionService_revokeAllForSubject now subj w"
    by (rule revokeAll_idem)
qed

lemma twoSessions_members: "redis_smembers twoSessions 20 (index_key ''u2'') = [''s3'', ''s2'']"
  by (simp add: twoSessions_def SessionService_create_def Let_def redis_set_ex_def redis_sadd_def
        redis_expire_def redis_smembers_def alive_def ttl_of_def initWorld_def
        SESSION_TTL_SECONDS_def index_key_def session_key_def)

theorem C5_witness:
  "redis_smembers twoSessions 20 (index_key ''u2'') = [''s3'', ''s2'']
   \<and> auditTrail (SessionService_revokeAllForSubject 20 ''u2'' twoSessions)
       = [\<lparr> action = ''SESSIONS_REVOKED_SUBJECT'', actorId = ''u2'', targetId = None,
            metadata = MdRevokedCount 2 \<rparr>]
   \<and> SessionService_get (SessionService_revokeAllForSubject 20 ''u2'' twoSessions) 20 ''s2'' = None
   \<and> SessionService_get (SessionService_revokeAllForSubject 20 ''u2'' twoSessions) 20 ''s3'' = None
   \<and> SessionService_revokeAllForSubject 30 ''u2'' (SessionService_revokeAllForSubject 20 ''u2'' twoSessions)
       = SessionService_revokeAllForSubject 20 ''u2'' twoSessions"
proof -
  have tr: "auditTrail twoSessions = []"
    by (simp add: twoSessions_def SessionService_create_def Let_def redis_set_ex_def redis_sadd_def
        redis_expire_def initWorld_def)
  show ?thesis
    using C5_revokeAllForSubject [of twoSessions 20 "''u2''"]
    by (simp add: twoSessions_members tr)
qed

section \<open>Facts about the session store\<close>

lemma alive_Some_iff:
  "(alive now (Some (v, e)) = Some v') = (v' = v \<and> (e = None \<or> (\<exists>x. e = Some x \<and> now \<le> x)))"
  by (auto simp: alive_def split: option.splits)

lemma create_fst:
  "fst (SessionService_create now t1 t2 t3 uuid p w) =
     \<lparr> s_id = uuid, s_subjectId = cp_subjectId p, s_deviceId = cp_deviceId p,
       s_tenantId = None, s_createdAt = now, s_expiresAt = now + SESSION_TTL_SECONDS * 1000,
       s_revokedAt = None, s_riskLevel = LOW, s_mfaVerified = cp_mfaVerified p,
       s_lastEvaluatedAt = now \<rparr>"
  by (simp add: SessionService_create_def Let_def)

lemma alive_SomeE:
  assumes "alive now ent = Some v"
  obtains e where "ent = Some (v, e)" and "alive now (Some (v, e)) = Some v"
  using assms by (cases ent) (auto simp: alive_def split: option.splits if_splits)

lemma revokeAll_sets:
  "kv_sets (SessionService_revokeAllForSubject now subj w) k =
     (if redis_smembers w now (index_key subj) \<noteq> []
         \<and> (k = index_key subj \<or> k \<in> session_key ` set (redis_smembers w now (index_key subj)))
      then None else kv_sets w k)"
  by (cases "redis_smembers w now (index_key subj) = []")
     (auto simp: revokeAll_nonempty revokeAll_empty kv_sets_del)

lemma revokeAll_strings:
  "kv_strings (SessionService_revokeAllForSubject now subj w) k =
     (if redis_smembers w now (index_key subj) \<noteq> []
         \<and> (k = index_key subj \<or> k \<in> session_key ` set (redis_smembers w now (index_key subj)))
      then None else kv_strings w k)"
  by (cases "redis_smembers w now (index_key subj) = []")
     (auto simp: revokeAll_nonempty revokeAll_empty kv_strings_del)

section \<open>Entitlement revocation and the subject's sessions\<close>

lemma smembers_rows [simp]:
  "redis_smembers (w\<lparr> entitlementRows := r \<rparr>) now k = redis_smembers w now k"
  by (simp add: redis_smembers_def)

lemma entitlementRows_del [simp]: "entitlementRows (redis_del w ks) = entitlementRows w"
  by (simp add: redis_del_def)

lemma entitlementRows_audit_log [simp]: "entitlementRows (audit_log w e) = entitlementRows w"
  by (simp add: audit_log_def)

lemma auditTrail_rows [simp]: "auditTrail (w\<lparr> entitlementRows := r \<rparr>) = auditTrail w"
  by simp

lemma revokeAll_entitlementRows:
  "entitlementRows (SessionService_revokeAllForSubject now subj w) = entitlementRows w"
  by (cases "redis_smembers w now (index_key subj) = []")
     (simp_all add: revokeAll_empty revokeAll_nonempty)

lemma revokeAll_rows_strings:
  "kv_strings (SessionService_revokeAllForSubject now subj (w\<lparr> entitlementRows := r \<rparr>))
     = kv_strings (SessionService_revokeAllForSubject now subj w)"
  by (rule ext) (simp add: revokeAll_strings)

lemma revokeAll_rows_sets:
  "kv_sets (SessionService_revokeAllForSubject now subj (w\<lparr> entitlementRows := r \<rparr>))
     = kv_sets (SessionService_revokeAllForSubject now subj w)"
  by (rule ext) (simp add: revokeAll_sets)

lemma revokeAll_trail:
  "auditTrail (SessionService_revokeAllForSubject now subj w) =
     auditTrail w @
       (if redis_smembers w now (index_key subj) = [] then []
        else [\<lparr> action = ''SESSIONS_REVOKED_SUBJECT'', actorId = subj, targetId = None,
                metadata = MdRevokedCount (length (redis_smembers w now (index_key subj))) \<rparr>])"
  by (cases "redis_smembers w now (index_key subj) = []")
     (simp_all add: revokeAll_empty revokeAll_nonempty)

lemma revokeAll_rows_trail:
  "auditTrail (SessionService_revokeAllForSubject now subj (w\<lparr> entitlementRows := r \<rparr>))
     = auditTrail (SessionService_revokeAllForSubject now subj w)"
  by (simp add: revokeAll_trail)

lemma find_updated:
  assumes "\<And>x. e_id (f x) = e_id x"
  shows "find (\<lambda>r. e_id r = eid) rows = Some e \<Longrightarrow>
     find (\<lambda>r. e_id r = eid) (map (\<lambda>x. if e_id x = eid then f x else x) rows) = Some (f e)"
  by (induction rows) (auto simp: assms)

lemma entitlement_revoke_found:
  assumes f: "find (\<lambda>r. e_id r = eid) (entitlementRows w) = Some e"
  shows "EntitlementService_revoke now eid revokedBy reason w =
     (Inr (e\<lparr> e_status := REVOKED, e_revokedAt := Some now, e_updatedAt := now \<rparr>),
      audit_log
        (revokeSessionsForSubject now (e_subjectId e)
           (w\<lparr> entitlementRows :=
                 map (\<lambda>x. if e_id x = eid
                          then x\<lparr> e_status := REVOKED, e_revokedAt := Some now, e_updatedAt := now \<rparr>
                          else x) (entitlementRows w) \<rparr>))
        \<lparr> action = ''ENTITLEMENT_REVOKED'', actorId = revokedBy, targetId = Some eid,
          metadata = MdReason reason \<rparr>)"
  using f by (simp add: EntitlementService_revoke_def prisma_entitlement_update_def Let_def)

text \<open>
  Claim C4, against the code. For an existing entitlement and any store,
  \<^verbatim>\<open>EntitlementService.revoke\<close> returns the row with status REVOKED and \<^verbatim>\<open>revokedAt\<close>,
  \<^verbatim>\<open>updatedAt\<close> set to the current instant, the table holds that row, the session keys and
  index sets are those that \<^verbatim>\<open>revokeAllForSubject\<close> of the entitlement's subject leaves, and
  the audit trail grows by the entries of \<^verbatim>\<open>revokeAllForSubject\<close>, of
  \<^verbatim>\<open>revokeSessionsForSubject\<close> and \<^verbatim>\<open>ENTITLEMENT_REVOKED\<close>. Every session id listed in the
  subject's index is absent afterwards. A session id that the index does not list is
  read exactly as before: a session of the subject outside the index survives the
  revocation.
\<close>

theorem C4_entitlement_revoke:
  assumes found: "find (\<lambda>r. e_id r = eid) (entitlementRows w) = Some e"
  shows "fst (EntitlementService_revoke now eid revokedBy reason w)
           = Inr (e\<lparr> e_status := REVOKED, e_revokedAt := Some now, e_updatedAt := now \<rparr>)
       \<and> find (\<lambda>r. e_id r = eid)
            (entitlementRows (snd (EntitlementService_revoke now eid revokedBy reason w)))
           = Some (e\<lparr> e_status := REVOKED, e_revokedAt := Some now, e_updatedAt := now \<rparr>)
       \<and> kv_strings (snd (EntitlementService_revoke now eid revokedBy reason w))
           = kv_strings (SessionService_revokeAllForSubject now (e_subjectId e) w)
       \<and> kv_sets (snd (EntitlementService_revoke now eid revokedBy reason w))
           = kv_sets (SessionService_revokeAllForSubject now (e_subjectId e) w)
       \<and> auditTrail (snd (EntitlementService_revoke now eid revokedBy reason w))
           = auditTrail w
             @ (if redis_smembers w now (index_key (e_subjectId e)) = [] then []
                else [\<lparr> action = ''SESSIONS_REVOKED_SUBJECT'', actorId = e_subjectId e,
                        targetId = None,
                        metadata = MdRevokedCount
                          (length (redis_smembers w now (index_key (e_subjectId e)))) \<rparr>])
             @ [\<lparr> action = ''SESSIONS_REVOKED_SUBJECT'', actorId = e_subjectId e,
                  targetId = None, metadata = MdSubjectId (e_subjectId e) \<rparr>,
                \<lparr> action = ''ENTITLEMENT_REVOKED'', actorId = revokedBy, targetId = Some eid,
                  metadata = MdReason reason \<rparr>]
       \<and> (\<forall>sid t. sid \<in> set (redis_smembers w now (index_key (e_subjectId e)))
            \<longrightarrow> SessionService_get (snd (EntitlementService_revoke now eid revokedBy reason w)) t sid
                 = None)
       \<and> (\<forall>sid t. sid \<notin> set (redis_smembers w now (index_key (e_subjectId e)))
            \<longrightarrow> SessionService_get (snd (EntitlementService_revoke now eid revokedBy reason w)) t sid
                 = SessionService_get w t sid)"
proof -
  let ?f = "\<lambda>x. x\<lparr> e_status := REVOKED, e_revokedAt := Some now, e_updatedAt := now \<rparr>"
  let ?w' = "snd (EntitlementService_revoke now eid revokedBy reason w)"
  let ?ids = "redis_smembers w now (index_key (e_subjectId e))"
  note eq = entitlement_revoke_found [OF found, of now revokedBy reason]
  have rows: "entitlementRows ?w' = map (\<lambda>x. if e_id x = eid then ?f x else x) (entitlementRows w)"
    by (simp add: eq revokeSessionsForSubject_def revokeAll_entitlementRows)
  have strs: "kv_strings ?w' = kv_strings (SessionService_revokeAllForSubject now (e_subjectId e) w)"
    by (simp add: eq revokeSessionsForSubject_def revokeAll_rows_strings)
  have sets: "kv_sets ?w' = kv_sets (SessionService_revokeAllForSubject now (e_subjectId e) w)"
    by (simp add: eq revokeSessionsForSubject_def revokeAll_rows_sets)
  have get: "\<And>t sid. SessionService_get ?w' t sid
               = SessionService_get (SessionService_revokeAllForSubject now (e_subjectId e) w) t sid"
    by (simp add: SessionService_get_def redis_get_def strs)
  have c1: "fst (EntitlementService_revoke now eid revokedBy reason w) = Inr (?f e)"
    by (simp add: eq)
  have c2: "find (\<lambda>r. e_id r = eid) (entitlementRows ?w') = Some (?f e)"
    unfolding rows by (rule find_updated [OF _ found]) simp
  have c5: "auditTrail ?w'
           = auditTrail w
             @ (if ?ids = [] then []
                else [\<lparr> action = ''SESSIONS_REVOKED_SUBJECT'', actorId = e_subjectId e,
                        targetId = None, metadata = MdRevokedCount (length ?ids) \<rparr>])
             @ [\<lparr> action = ''SESSIONS_REVOKED_SUBJECT'', actorId = e_subjectId e,
                  targetId = None, metadata = MdSubjectId (e_subjectId e) \<rparr>,
                \<lparr> action = ''ENTITLEMENT_REVOKED'', actorId = revokedBy, targetId = Some eid,
                  metadata = MdReason reason \<rparr>]"
    by (simp add: eq revokeSessionsForSubject_def revokeAll_rows_trail revokeAll_trail)
  have c6: "\<forall>sid t. sid \<in> set ?ids \<longrightarrow> SessionService_get ?w' t sid = None"
    unfolding get by (simp add: revokeAll_sessions_gone)
  have c7: "\<forall>sid t. sid \<notin> set ?ids \<longrightarrow> SessionService_get ?w' t sid = SessionService_get w t sid"
    unfolding get
    by (auto simp: SessionService_get_def redis_get_def revokeAll_strings)
  from c1 c2 strs sets c5 c6 c7 show ?thesis by blast
qed

lemma lateIndexWorld_rows: "entitlementRows lateIndexWorld = [entU1]"
  by (simp add: lateIndexWorld_def SessionService_create_def Let_def
        redis_set_ex_def redis_sadd_def redis_expire_def initWorld_def)

lemma lateIndexWorld_trail: "auditTrail lateIndexWorld = []"
  by (simp add: lateIndexWorld_def SessionService_create_def Let_def
        redis_set_ex_def redis_sadd_def redis_expire_def initWorld_def)

lemma lateIndexWorld_index:
  "kv_sets lateIndexWorld (index_key ''u1'') = Some ([''s9'', ''s1''], Some 28860000)"
  by (simp add: lateIndexWorld_def SessionService_create_def Let_def
        redis_set_ex_def redis_sadd_def redis_expire_def redis_smembers_def alive_def ttl_of_def
        initWorld_def SESSION_TTL_SECONDS_def index_key_def session_key_def)

lemma lateIndexWorld_members:
  "redis_smembers lateIndexWorld 28860002 (index_key ''u1'') = []"
  by (simp add: redis_smembers_def lateIndexWorld_index alive_def)

lemma lateIndexWorld_get:
  "SessionService_get lateIndexWorld 28860002 ''s9'' =
     Some \<lparr> s_id = ''s9'', s_subjectId = ''u1'', s_deviceId = Some ''d1'', s_tenantId = None,
            s_createdAt = 28860000, s_expiresAt = 57660000, s_revokedAt = None,
            s_riskLevel = LOW, s_mfaVerified = True, s_lastEvaluatedAt = 28860000 \<rparr>"
  by (simp add: lateIndexWorld_def SessionService_create_def SessionService_get_def redis_get_def
        Let_def redis_set_ex_def redis_sadd_def redis_expire_def alive_def
        SESSION_TTL_SECONDS_def session_key_def index_key_def initWorld_def
        split: option.splits)

text \<open>
  The instance: in the store above the index of \<^verbatim>\<open>u1\<close> holds \<^verbatim>\<open>s9\<close> and \<^verbatim>\<open>s1\<close> but expired at
  28 860 000. At 28 860 002 the entitlement of \<^verbatim>\<open>u1\<close> is revoked: the row is returned
  REVOKED, the trail has no \<^verbatim>\<open>revokedCount\<close> entry because the index read empty, and \<^verbatim>\<open>get\<close>
  still returns the session \<^verbatim>\<open>s9\<close> of \<^verbatim>\<open>u1\<close>, which expires at 57 660 000.
\<close>

theorem C4_session_survives_revoke:
  "kv_sets lateIndexWorld (index_key ''u1'') = Some ([''s9'', ''s1''], Some 28860000)
   \<and> redis_smembers lateIndexWorld 28860002 (index_key ''u1'') = []
   \<and> fst (EntitlementService_revoke 28860002 ''e1'' ''admin'' ''offboarding'' lateIndexWorld)
       = Inr (entU1\<lparr> e_status := REVOKED, e_revokedAt := Some 28860002,
                      e_updatedAt := 28860002 \<rparr>)
   \<and> auditTrail (snd (EntitlementService_revoke 28860002 ''e1'' ''admin'' ''offboarding''
                       lateIndexWorld))
       = [\<lparr> action = ''SESSIONS_REVOKED_SUBJECT'', actorId = ''u1'', targetId = None,
            metadata = MdSubjectId ''u1'' \<rparr>,
          \<lparr> action = ''ENTITLEMENT_REVOKED'', actorId = ''admin'', targetId = Some ''e1'',
            metadata = MdReason ''offboarding'' \<rparr>]
   \<and> SessionService_get
        (snd (EntitlementService_revoke 28860002 ''e1'' ''admin'' ''offboarding'' lateIndexWorld))
        28860002 ''s9''
       = Some \<lparr> s_id = ''s9'', s_subjectId = ''u1'', s_deviceId = Some ''d1'', s_tenantId = None,
                s_createdAt = 28860000, s_expiresAt = 57660000, s_revokedAt = None,
                s_riskLevel = LOW, s_mfaVerified = True, s_lastEvaluatedAt = 28860000 \<rparr>"
proof -
  have found: "find (\<lambda>r. e_id r = ''e1'') (entitlementRows lateIndexWorld) = Some entU1"
    by (simp add: lateIndexWorld_rows entU1_def)
  have subj: "e_subjectId entU1 = ''u1''" by (simp add: entU1_def)
  note th = C4_entitlement_revoke [OF found, of 28860002 "''admin''" "''offboarding''",
              unfolded subj lateIndexWorld_members lateIndexWorld_trail]
  from th have c1: "fst (EntitlementService_revoke 28860002 ''e1'' ''admin'' ''offboarding''
                           lateIndexWorld)
       = Inr (entU1\<lparr> e_status := REVOKED, e_revokedAt := Some 28860002,
                      e_updatedAt := 28860002 \<rparr>)"
    by (rule conjunct1)
  from th have c5: "auditTrail (snd (EntitlementService_revoke 28860002 ''e1'' ''admin''
                       ''offboarding'' lateIndexWorld))
       = [\<lparr> action = ''SESSIONS_REVOKED_SUBJECT'', actorId = ''u1'', targetId = None,
            metadata = MdSubjectId ''u1'' \<rparr>,
          \<lparr> action = ''ENTITLEMENT_REVOKED'', actorId = ''admin'', targetId = Some ''e1'',
            metadata = MdReason ''offboarding'' \<rparr>]"
    by simp
  from th have "\<forall>sid t. sid \<notin> set [] \<longrightarrow>
      SessionService_get (snd (EntitlementService_revoke 28860002 ''e1'' ''admin''
                       ''offboarding'' lateIndexWorld)) t sid
        = SessionService_get lateIndexWorld t sid"
    by blast
  then have c7: "SessionService_get (snd (EntitlementService_revoke 28860002 ''e1'' ''admin''
                       ''offboarding'' lateIndexWorld)) 28860002 ''s9''
        = SessionService_get lateIndexWorld 28860002 ''s9''"
    by simp
  from c1 c5 c7 show ?thesis
    by (simp add: lateIndexWorld_index lateIndexWorld_members lateIndexWorld_get)
qed

lemma run_historyS6: "run historyS6 (0, initWorld [entU2]) = (20, worldS6)"
  by (simp add: worldS6_def historyS6_def run_def)

lemma worldS6_strings:
  "kv_strings worldS6 =
     [session_key ''s2'' \<mapsto>
        (\<lparr> s_id = ''s2'', s_subjectId = ''u2'', s_deviceId = Some ''d1'', s_tenantId = None,
           s_createdAt = 0, s_expiresAt = 28800000, s_revokedAt = None, s_riskLevel = LOW,
           s_mfaVerified = True, s_lastEvaluatedAt = 0 \<rparr>, Some 28800000),
      session_key ''s3'' \<mapsto>
        (\<lparr> s_id = ''s3'', s_subjectId = ''u2'', s_deviceId = None, s_tenantId = None,
           s_createdAt = 10, s_expiresAt = 28800010, s_revokedAt = None, s_riskLevel = LOW,
           s_mfaVerified = False, s_lastEvaluatedAt = 10 \<rparr>, Some 28800010)]"
  by (simp add: worldS6_def historyS6_def run_def SessionService_create_def Let_def
        redis_set_ex_def redis_sadd_def redis_expire_def initWorld_def alive_def
        SESSION_TTL_SECONDS_def session_key_def index_key_def)

section \<open>Sessions are created without a tenant\<close>

lemma create_get:
  "t \<le> t1 + SESSION_TTL_SECONDS * 1000 \<Longrightarrow>
   SessionService_get (snd (SessionService_create now t1 t2 t3 uuid params w)) t uuid
     = Some (fst (SessionService_create now t1 t2 t3 uuid params w))"
  by (simp add: SessionService_create_def SessionService_get_def redis_get_def Let_def
       redis_set_ex_def redis_sadd_def redis_expire_def alive_def SESSION_TTL_SECONDS_def
       session_key_def index_key_def split: option.splits)

lemma tenantless_init: "tenantless (initWorld rows)"
  by (simp add: tenantless_def initWorld_def)

lemma kv_strings_expire_cases:
  "kv_strings (redis_expire w now k secs) k' = Some (s, e) \<Longrightarrow>
     \<exists>e'. kv_strings w k' = Some (s, e')"
  by (auto simp: redis_expire_def alive_def split: option.splits if_splits)

lemma tenantless_create:
  assumes "tenantless w"
  shows "tenantless (snd (SessionService_create now t1 t2 t3 uuid p w))"
  unfolding tenantless_def
proof (intro allI impI)
  fix k s e
  assume "kv_strings (snd (SessionService_create now t1 t2 t3 uuid p w)) k = Some (s, e)"
  then obtain e' where
    "kv_strings (redis_sadd (redis_set_ex w t1 (session_key uuid)
        (fst (SessionService_create now t1 t2 t3 uuid p w))
        SESSION_TTL_SECONDS) t2 (index_key (cp_subjectId p)) uuid) k = Some (s, e')"
    by (auto simp: SessionService_create_def Let_def dest: kv_strings_expire_cases)
  then have "s = fst (SessionService_create now t1 t2 t3 uuid p w) \<or> kv_strings w k = Some (s, e')"
    by (auto simp: redis_sadd_def redis_set_ex_def split: if_splits)
  with assms show "s_tenantId s = None"
    by (auto simp: tenantless_def create_fst)
qed

lemma tenantless_updateRisk:
  assumes "tenantless w"
  shows "tenantless (SessionService_updateRisk now sid lvl at w)"
proof (cases "redis_get w now (session_key sid)")
  case None
  with assms show ?thesis by (simp add: SessionService_updateRisk_def)
next
  case (Some raw)
  then obtain e0 where "kv_strings w (session_key sid) = Some (raw, e0)"
    unfolding redis_get_def by (rule alive_SomeE)
  with assms have "s_tenantId raw = None" by (auto simp: tenantless_def)
  with assms Some show ?thesis
    by (auto simp: SessionService_updateRisk_def Let_def redis_set_keepttl_def tenantless_def
          split: if_splits)
qed

lemma tenantless_revoke:
  assumes "tenantless w"
  shows "tenantless (SessionService_revoke now sid w)"
  using assms
  by (cases "redis_get w now (session_key sid)")
     (auto simp: SessionService_revoke_def Let_def tenantless_def kv_strings_del split: if_splits)

lemma tenantless_revokeAll:
  assumes "tenantless w"
  shows "tenantless (SessionService_revokeAllForSubject now subj w)"
  using assms
  by (auto simp: tenantless_def revokeAll_strings split: if_splits)

lemma tenantless_step:
  assumes "tenantless w" "step (t, w) op = (t', w')"
  shows "tenantless w'"
proof (cases op)
  case (Tick d)
  with assms show ?thesis by auto
next
  case (Create uuid p d0 d1 d2)
  with assms show ?thesis by (auto intro: tenantless_create)
next
  case (UpdateRisk sid lvl at)
  with assms show ?thesis by (auto intro: tenantless_updateRisk)
next
  case (Revoke sid)
  with assms show ?thesis by (auto intro: tenantless_revoke)
next
  case (RevokeAll subj)
  with assms show ?thesis by (auto intro: tenantless_revokeAll)
qed

lemma tenantless_run:
  "tenantless w0 \<Longrightarrow> run ops (t0, w0) = (t, w) \<Longrightarrow> tenantless w"
proof (induction ops arbitrary: t0 w0)
  case Nil
  then show ?case by (simp add: run_def)
next
  case (Cons op ops)
  obtain t1 w1 where s1: "step (t0, w0) op = (t1, w1)" by (cases "step (t0, w0) op")
  from Cons.prems(2) s1 have "run ops (t1, w1) = (t, w)" by (simp add: run_def)
  from Cons.IH [OF tenantless_step [OF Cons.prems(1) s1] this] show ?case .
qed

lemma get_tenantless:
  "tenantless w \<Longrightarrow> SessionService_get w t sid = Some s \<Longrightarrow> s_tenantId s = None"
proof -
  assume tl: "tenantless w" and g: "SessionService_get w t sid = Some s"
  from g obtain e where "kv_strings w (session_key sid) = Some (s, e)"
    unfolding SessionService_get_def redis_get_def by (rule alive_SomeE)
  with tl show ?thesis by (auto simp: tenantless_def)
qed

text \<open>
  Claim C10. The session that \<^verbatim>\<open>SessionService.create\<close> returns has no \<^verbatim>\<open>tenantId\<close> and is the
  record that \<^verbatim>\<open>get\<close> reads back, at every instant up to the expiry that \<^verbatim>\<open>SET\<close> gave the
  key and whenever the three Redis commands of \<^verbatim>\<open>create\<close> ran; in every store reached from the empty one through
  \<^verbatim>\<open>SessionService\<close>, whatever \<^verbatim>\<open>get\<close> returns has no \<^verbatim>\<open>tenantId\<close>; and for a request that
  carries a session without \<^verbatim>\<open>tenantId\<close>, \<^verbatim>\<open>buildOpaInput\<close> builds a policy input whose
  \<^verbatim>\<open>tenant.id\<close> is \<^verbatim>\<open>undefined\<close>.
\<close>

theorem C10_create_has_no_tenantId:
  "s_tenantId (fst (SessionService_create now t_set t_sadd t_expire uuid params w)) = None
   \<and> (\<forall>t. t \<le> t_set + SESSION_TTL_SECONDS * 1000 \<longrightarrow>
         SessionService_get (snd (SessionService_create now t_set t_sadd t_expire uuid params w))
           t uuid
         = Some (fst (SessionService_create now t_set t_sadd t_expire uuid params w)))
   \<and> (run ops (t0, initWorld rows) = (t, w') \<and> SessionService_get w' t' sid = Some s
        \<longrightarrow> s_tenantId s = None)
   \<and> (s_tenantId (session request) = None
        \<longrightarrow> map_option tenant_id (opaInput (buildOpaInput request)) = Some None)"
proof -
  have a: "s_tenantId (fst (SessionService_create now t_set t_sadd t_expire uuid params w)) = None"
    by (simp add: create_fst)
  have b: "\<forall>t. t \<le> t_set + SESSION_TTL_SECONDS * 1000 \<longrightarrow>
         SessionService_get (snd (SessionService_create now t_set t_sadd t_expire uuid params w))
           t uuid
         = Some (fst (SessionService_create now t_set t_sadd t_expire uuid params w))"
    by (simp add: create_get)
  have c: "run ops (t0, initWorld rows) = (t, w') \<and> SessionService_get w' t' sid = Some s
        \<longrightarrow> s_tenantId s = None"
    using get_tenantless [OF tenantless_run [OF tenantless_init]] by blast
  have d: "s_tenantId (session request) = None
        \<longrightarrow> map_option tenant_id (opaInput (buildOpaInput request)) = Some None"
    by (simp add: buildOpaInput_def)
  from a b c d show ?thesis by blast
qed

theorem C10_witness:
  "SessionService_get worldS6 20 ''s3''
     = Some \<lparr> s_id = ''s3'', s_subjectId = ''u2'', s_deviceId = None, s_tenantId = None,
              s_createdAt = 10, s_expiresAt = 28800010, s_revokedAt = None, s_riskLevel = LOW,
              s_mfaVerified = False, s_lastEvaluatedAt = 10 \<rparr>
   \<and> SessionService_get (snd (SessionService_create 0 1 2 3 ''s1''
                 \<lparr> cp_subjectId = ''u1'', cp_deviceId = Some ''d1'', cp_mfaVerified = True \<rparr>
                 (initWorld []))) 1 ''s1''
     = Some \<lparr> s_id = ''s1'', s_subjectId = ''u1'', s_deviceId = Some ''d1'', s_tenantId = None,
              s_createdAt = 0, s_expiresAt = 28800000, s_revokedAt = None, s_riskLevel = LOW,
              s_mfaVerified = True, s_lastEvaluatedAt = 0 \<rparr>
   \<and> map_option tenant_id (opaInput (buildOpaInput
        (req0\<lparr> session := fst (SessionService_create 0 1 2 3 ''s1''
                 \<lparr> cp_subjectId = ''u1'', cp_deviceId = Some ''d1'', cp_mfaVerified = True \<rparr>
                 (initWorld [])) \<rparr>))) = Some None"
proof -
  let ?p = "\<lparr> cp_subjectId = ''u1'', cp_deviceId = Some ''d1'', cp_mfaVerified = True \<rparr>"
  let ?rq = "req0\<lparr> session := fst (SessionService_create 0 1 2 3 ''s1'' ?p (initWorld [])) \<rparr>"
  have g: "SessionService_get worldS6 20 ''s3''
     = Some \<lparr> s_id = ''s3'', s_subjectId = ''u2'', s_deviceId = None, s_tenantId = None,
              s_createdAt = 10, s_expiresAt = 28800010, s_revokedAt = None, s_riskLevel = LOW,
              s_mfaVerified = False, s_lastEvaluatedAt = 10 \<rparr>"
    by (simp add: SessionService_get_def redis_get_def worldS6_strings alive_def session_key_def)
  note th = C10_create_has_no_tenantId [of 0 1 2 3 "''s1''" ?p "initWorld []" historyS6 0 "[entU2]"
              20 worldS6 20 "''s3''" _ ?rq]
  from th have a: "s_tenantId (session ?rq) = None" by simp
  from th a have m: "map_option tenant_id (opaInput (buildOpaInput ?rq)) = Some None" by blast
  from th have "\<forall>t. t \<le> 1 + SESSION_TTL_SECONDS * 1000 \<longrightarrow>
         SessionService_get (snd (SessionService_create 0 1 2 3 ''s1'' ?p (initWorld []))) t ''s1''
         = Some (fst (SessionService_create 0 1 2 3 ''s1'' ?p (initWorld [])))"
    by (rule conjunct2 [THEN conjunct1])
  then have r: "SessionService_get (snd (SessionService_create 0 1 2 3 ''s1'' ?p (initWorld []))) 1 ''s1''
         = Some (fst (SessionService_create 0 1 2 3 ''s1'' ?p (initWorld [])))"
    by (simp add: SESSION_TTL_SECONDS_def)
  have f: "fst (SessionService_create 0 1 2 3 ''s1'' ?p (initWorld []))
     = \<lparr> s_id = ''s1'', s_subjectId = ''u1'', s_deviceId = Some ''d1'', s_tenantId = None,
              s_createdAt = 0, s_expiresAt = 28800000, s_revokedAt = None, s_riskLevel = LOW,
              s_mfaVerified = True, s_lastEvaluatedAt = 0 \<rparr>"
    by (simp add: create_fst SESSION_TTL_SECONDS_def)
  from g r m show ?thesis unfolding f by blast
qed

section \<open>Throttling\<close>












lemma admitted_Nil [simp]: "admitted [] outs = []"
  by (simp add: admitted_def)
















section \<open>The audit chain\<close>

lemma withoutId_withId [simp]: "withoutId (withId b h) = b"
  by (simp add: withoutId_def withId_def)

lemma eventId_withId [simp]: "eventId (withId b h) = h"
  by (simp add: withId_def)

lemma withId_eq_iff: "(withId b h = withId b' h') = (b = b' \<and> h = h')"
  by (cases b; cases b') (auto simp: withId_def)

lemma append_events:
  "events (snd (ImmutableAuditLog_append sha js b log))
     = events log @ [withId b (sha (js b (lastHash log)))]"
  by (simp add: ImmutableAuditLog_append_def Let_def)

lemma append_lastHash:
  "lastHash (snd (ImmutableAuditLog_append sha js b log)) = sha (js b (lastHash log))"
  by (simp add: ImmutableAuditLog_append_def Let_def)

lemma appendAll_snoc:
  "appendAll sha js (bodies @ [b]) log
     = snd (ImmutableAuditLog_append sha js b (appendAll sha js bodies log))"
  by (simp add: appendAll_def)

lemma appendAll_Nil [simp]: "appendAll sha js [] log = log"
  by (simp add: appendAll_def)

lemma appendAll_length:
  "length (events (appendAll sha js bodies newLog)) = length bodies"
  by (induction bodies rule: rev_induct)
     (simp_all add: appendAll_snoc append_events newLog_def)

lemma appendAll_lastHash:
  "lastHash (appendAll sha js bodies newLog)
     = (if bodies = [] then ''GENESIS''
        else eventId (last (events (appendAll sha js bodies newLog))))"
  by (induction bodies rule: rev_induct)
     (simp_all add: appendAll_snoc append_events append_lastHash newLog_def)

lemma verify_from_snoc:
  "verify_from sha js prev (evs @ [r])
     = (verify_from sha js prev evs
        \<and> eventId r = sha (js (withoutId r) (if evs = [] then prev else eventId (last evs))))"
  by (induction evs arbitrary: prev) (auto simp: Let_def)

lemma appendAll_empty_iff:
  "(events (appendAll sha js bodies newLog) = []) = (bodies = [])"
  using appendAll_length [of sha js bodies] by (metis length_0_conv)

lemma verify_appendAll:
  "verify_from sha js ''GENESIS'' (events (appendAll sha js bodies newLog))"
proof (induction bodies rule: rev_induct)
  case Nil
  then show ?case by (simp add: newLog_def)
next
  case (snoc b bodies)
  show ?case
    unfolding appendAll_snoc append_events verify_from_snoc
    using snoc.IH
    by (simp add: appendAll_lastHash appendAll_empty_iff)
qed

lemma verify_log_update [simp]:
  "ImmutableAuditLog_verify sha js (log\<lparr> events := evs \<rparr>) = verify_from sha js ''GENESIS'' evs"
  by (simp add: ImmutableAuditLog_verify_def)

text \<open>
  Claim C2, against the code. For every hash and serialization function and every list
  of appended events, \<^verbatim>\<open>verify\<close> succeeds on the log: each stored id is the hash of the record
  without its id serialized with the previous record's id (\<^verbatim>\<open>GENESIS\<close> for the first). But
  \<^verbatim>\<open>verify\<close> also succeeds on the log whose last record has been replaced by any other
  body with the id recomputed from it, and on the log whose last record has been deleted,
  although \<^verbatim>\<open>lastHash\<close> still holds the id of the original last record: \<^verbatim>\<open>verify\<close> never
  reads \<^verbatim>\<open>lastHash\<close>.
\<close>

theorem C2_verify_misses_last_record:
  "ImmutableAuditLog_verify sha js (appendAll sha js (bodies @ [b]) newLog)
   \<and> events (appendAll sha js (bodies @ [b]) newLog)
       = events (appendAll sha js bodies newLog)
         @ [withId b (sha (js b (lastHash (appendAll sha js bodies newLog))))]
   \<and> length (events (appendAll sha js bodies newLog)) = length bodies
   \<and> lastHash (appendAll sha js bodies newLog)
       = (if bodies = [] then ''GENESIS''
          else eventId (last (events (appendAll sha js bodies newLog))))
   \<and> ((withId b' (sha (js b' (lastHash (appendAll sha js bodies newLog))))
         = events (appendAll sha js (bodies @ [b]) newLog) ! length bodies)
       = (b' = b))
   \<and> ImmutableAuditLog_verify sha js
        ((appendAll sha js (bodies @ [b]) newLog)
           \<lparr> events := (events (appendAll sha js (bodies @ [b]) newLog))
                [length bodies :=
                   withId b' (sha (js b' (lastHash (appendAll sha js bodies newLog))))] \<rparr>)
   \<and> ImmutableAuditLog_verify sha js
        ((appendAll sha js (bodies @ [b]) newLog)
           \<lparr> events := butlast (events (appendAll sha js (bodies @ [b]) newLog)) \<rparr>)
   \<and> lastHash
        ((appendAll sha js (bodies @ [b]) newLog)
           \<lparr> events := butlast (events (appendAll sha js (bodies @ [b]) newLog)) \<rparr>)
       = sha (js b (lastHash (appendAll sha js bodies newLog)))
   \<and> ImmutableAuditLog_verify sha js (log\<lparr> lastHash := h \<rparr>)
       = ImmutableAuditLog_verify sha js log"
proof -
  let ?L = "appendAll sha js bodies newLog"
  let ?L' = "appendAll sha js (bodies @ [b]) newLog"
  let ?prev = "lastHash ?L"
  have ev: "events ?L' = events ?L @ [withId b (sha (js b ?prev))]"
    by (simp add: appendAll_snoc append_events)
  have len: "length (events ?L) = length bodies"
    by (rule appendAll_length)
  have ok: "ImmutableAuditLog_verify sha js ?L'"
    unfolding ImmutableAuditLog_verify_def by (rule verify_appendAll)
  have lh: "?prev = (if bodies = [] then ''GENESIS'' else eventId (last (events ?L)))"
    by (rule appendAll_lastHash)
  have nth: "events ?L' ! length bodies = withId b (sha (js b ?prev))"
    unfolding ev using len by (simp add: nth_append)
  have differs: "(withId b' (sha (js b' ?prev)) = events ?L' ! length bodies) = (b' = b)"
    unfolding nth by (auto simp: withId_eq_iff)
  have upd: "(events ?L')[length bodies := withId b' (sha (js b' ?prev))]
               = events ?L @ [withId b' (sha (js b' ?prev))]"
    unfolding ev by (simp add: list_update_append len)
  have okL: "verify_from sha js ''GENESIS'' (events ?L)"
    by (rule verify_appendAll)
  have forged: "ImmutableAuditLog_verify sha js
        (?L'\<lparr> events := (events ?L')[length bodies := withId b' (sha (js b' ?prev))] \<rparr>)"
    unfolding verify_log_update upd verify_from_snoc
    using okL by (simp add: appendAll_lastHash appendAll_empty_iff)
  have dropped: "ImmutableAuditLog_verify sha js (?L'\<lparr> events := butlast (events ?L') \<rparr>)"
    unfolding verify_log_update ev using okL by simp
  have anchor: "lastHash (?L'\<lparr> events := butlast (events ?L') \<rparr>) = sha (js b ?prev)"
    by (simp add: appendAll_snoc append_lastHash)
  have blind: "ImmutableAuditLog_verify sha js (log\<lparr> lastHash := h \<rparr>)
                 = ImmutableAuditLog_verify sha js log"
    by (simp add: ImmutableAuditLog_verify_def)
  from ok ev len lh differs forged dropped anchor blind show ?thesis by blast
qed

text \<open>
  The instance, for every hash and serialization function: a log of two appended events
  verifies; so does the log in which the second record has another actor and the id
  recomputed from the new content, and so does the log that has lost its second record,
  while \<^verbatim>\<open>lastHash\<close> is still the id of the original second record.
\<close>

theorem C2_rewritten_tail_verifies:
  "\<forall>sha js.
     events (appendAll sha js [body1, body2] newLog)
       = [withId body1 (sha (js body1 ''GENESIS'')),
          withId body2 (sha (js body2 (sha (js body1 ''GENESIS''))))]
   \<and> lastHash (appendAll sha js [body1, body2] newLog)
       = sha (js body2 (sha (js body1 ''GENESIS'')))
   \<and> ImmutableAuditLog_verify sha js (appendAll sha js [body1, body2] newLog)
   \<and> withId (body2\<lparr> actor := ''mallory'' \<rparr>)
         (sha (js (body2\<lparr> actor := ''mallory'' \<rparr>) (sha (js body1 ''GENESIS''))))
       \<noteq> withId body2 (sha (js body2 (sha (js body1 ''GENESIS''))))
   \<and> ImmutableAuditLog_verify sha js
        \<lparr> events = [withId body1 (sha (js body1 ''GENESIS'')),
                     withId (body2\<lparr> actor := ''mallory'' \<rparr>)
                       (sha (js (body2\<lparr> actor := ''mallory'' \<rparr>)
                              (sha (js body1 ''GENESIS''))))],
          lastHash = sha (js body2 (sha (js body1 ''GENESIS''))) \<rparr>
   \<and> ImmutableAuditLog_verify sha js
        \<lparr> events = [withId body1 (sha (js body1 ''GENESIS''))],
          lastHash = sha (js body2 (sha (js body1 ''GENESIS''))) \<rparr>"
proof (intro allI)
  fix sha :: "string \<Rightarrow> string" and js :: "EventBody \<Rightarrow> string \<Rightarrow> string"
  let ?h1 = "sha (js body1 ''GENESIS'')"
  let ?h2 = "sha (js body2 ?h1)"
  let ?b' = "body2\<lparr> actor := ''mallory'' \<rparr>"
  have one: "appendAll sha js [body1] newLog
               = \<lparr> events = [withId body1 ?h1], lastHash = ?h1 \<rparr>"
    by (simp add: appendAll_def ImmutableAuditLog_append_def Let_def newLog_def)
  have two: "appendAll sha js ([body1] @ [body2]) newLog
               = \<lparr> events = [withId body1 ?h1, withId body2 ?h2], lastHash = ?h2 \<rparr>"
    by (simp add: appendAll_def ImmutableAuditLog_append_def Let_def newLog_def)
  have ne: "?b' \<noteq> body2"
    by (simp add: body2_def)
  note th = C2_verify_misses_last_record [of sha js "[body1]" body2 ?b', unfolded one two]
  from th ne show
    "events (appendAll sha js [body1, body2] newLog) = [withId body1 ?h1, withId body2 ?h2]
   \<and> lastHash (appendAll sha js [body1, body2] newLog) = ?h2
   \<and> ImmutableAuditLog_verify sha js (appendAll sha js [body1, body2] newLog)
   \<and> withId ?b' (sha (js ?b' ?h1)) \<noteq> withId body2 ?h2
   \<and> ImmutableAuditLog_verify sha js
        \<lparr> events = [withId body1 ?h1, withId ?b' (sha (js ?b' ?h1))], lastHash = ?h2 \<rparr>
   \<and> ImmutableAuditLog_verify sha js \<lparr> events = [withId body1 ?h1], lastHash = ?h2 \<rparr>"
    using two by simp
qed

end
